theory Spec2Isabelle
  imports Main
begin

section \<open>The double-tree map: a B+-tree of page nodes that are B+-trees of line nodes\<close>

text \<open>
  The development embeds the three layers of the container: \<open>line_node\<close> (a sorted array in
  one cache line), \<open>PageNode\<close> (a B+-tree of line nodes inside one memory page, with its own
  slot allocator) and \<open>kernel\<close> (the outer B+-tree of heap-allocated page nodes, with its
  iterator).

  Conventions of the embedding.
  \<^item> A function of the source that can leave defined behaviour (a failed \<open>assert\<close>, an
    index outside a \<open>std::array\<close> or \<open>std::vector\<close>, a read of memory that holds no live
    object, a null or dangling pointer) returns a value of \<open>error + 'a\<close>; \<open>Inl\<close> names
    what went wrong.
  \<^item> A line node is the list of its live elements: \<open>count_\<close> is the length of the list and
    \<open>elems_[i]\<close> for \<open>i < count_\<close> is the \<open>i\<close>-th element. Array cells at and beyond
    \<open>count_\<close> hold no live element; reading one is reported as \<open>Uninitialized\<close>.
  \<^item> The unsigned 8-bit fields of the source (\<open>line_index\<close>, \<open>page_index\<close>) are natural
    numbers; the one place where the source computes \<open>count_ - 1\<close> on an empty node is reached
    only after the read of \<open>elems_[0]\<close>, which is already reported as an error.
  \<^item> The constants are those of \<open>double_tree::map<uint64_t, uint64_t>\<close>, the instance the
    test driver builds: every element type is 16 bytes wide.
\<close>

subsection \<open>Errors\<close>

datatype error =
    AssertFailed     \<comment> \<open>\<open>assert(free_count > 0)\<close> in \<open>allocate\<close>\<close>
  | OutOfBounds      \<comment> \<open>index outside an array, or a write past the capacity of a node\<close>
  | Uninitialized    \<comment> \<open>read of a cell, slot or pointer that holds no live value\<close>
  | WrongMember      \<comment> \<open>a pool entry or heap page read as the other union member\<close>
  | NullPointer
  | UseAfterFree
  | OutOfFuel        \<comment> \<open>a \<open>while\<close> loop did not stop within the given number of rounds\<close>

definition seq :: "error + 'a \<Rightarrow> ('a \<Rightarrow> error + 'b) \<Rightarrow> error + 'b" where
  "seq m f = (case m of Inl e \<Rightarrow> Inl e | Inr x \<Rightarrow> f x)"

subsection \<open>Line nodes\<close>

definition line_node_size :: nat where
  "line_node_size = 256"

text \<open>\<open>max_count = (line_node_size - sizeof(line_index) - sizeof(Aux)) / sizeof(Element)\<close>.\<close>

definition max_count_of :: "nat \<Rightarrow> nat \<Rightarrow> nat" where
  "max_count_of sizeof_Aux sizeof_Element = (line_node_size - 1 - sizeof_Aux) div sizeof_Element"

text \<open>
  Leaf lines carry two one-byte indices as \<open>Aux\<close>, stem lines an empty struct (one byte);
  elements are 16 bytes in both. Both capacities are 15.
\<close>

definition max_count :: nat where
  "max_count = max_count_of 2 16"

definition min_count :: nat where
  "min_count = max_count div 2"

type_synonym ('k, 'v) line_node = "('k \<times> 'v) list"

definition count :: "('k, 'v) line_node \<Rightarrow> nat" where
  "count n = length n"

definition min_index :: "('k, 'v) line_node \<Rightarrow> nat" where
  "min_index n = 0"

definition max_index :: "('k, 'v) line_node \<Rightarrow> nat" where
  "max_index n = (if count n = 0 then 0 else count n - 1)"

definition end_index :: "('k, 'v) line_node \<Rightarrow> nat" where
  "end_index n = count n"

definition elem :: "('k, 'v) line_node \<Rightarrow> nat \<Rightarrow> error + ('k \<times> 'v)" where
  "elem n i = (if i < count n then Inr (n ! i)
               else if i < max_count then Inl Uninitialized else Inl OutOfBounds)"

definition key :: "('k, 'v) line_node \<Rightarrow> nat \<Rightarrow> error + 'k" where
  "key n i = seq (elem n i) (\<lambda>e. Inr (fst e))"

definition min_key :: "('k, 'v) line_node \<Rightarrow> error + 'k" where
  "min_key n = key n (min_index n)"

definition min_elem :: "('k, 'v) line_node \<Rightarrow> error + ('k \<times> 'v)" where
  "min_elem n = elem n (min_index n)"

definition line_empty :: "('k, 'v) line_node \<Rightarrow> bool" where
  "line_empty n = (count n = 0)"

definition full :: "('k, 'v) line_node \<Rightarrow> bool" where
  "full n = (count n = max_count)"

definition thin :: "('k, 'v) line_node \<Rightarrow> bool" where
  "thin n = (count n < min_count)"

text \<open>
  \<open>set_key\<close> overwrites the key of cell \<open>index\<close>. A cell between \<open>count_\<close> and the capacity
  is part of the array but holds no live element, so the write changes no element.
\<close>

definition line_set_key :: "('k, 'v) line_node \<Rightarrow> nat \<Rightarrow> 'k \<Rightarrow> error + ('k, 'v) line_node" where
  "line_set_key n i new_key =
     (if i < count n then Inr (n[i := (new_key, snd (n ! i))])
      else if i < max_count then Inr n else Inl OutOfBounds)"

text \<open>
  The scan of \<open>find\<close>: \<open>for (int i = min_index() + 1; i < end_index(); ++i)\<close>, returning
  \<open>i - 1\<close> at the first key greater than the one sought and \<open>count_ - 1\<close> after the loop.
\<close>

function find_loop :: "('k::linorder, 'v) line_node \<Rightarrow> 'k \<Rightarrow> nat \<Rightarrow> nat" where
  "find_loop n find_key i =
     (if i < end_index n
      then (if fst (n ! i) > find_key then i - 1 else find_loop n find_key (Suc i))
      else count n - 1)"
  by pat_completeness auto
termination
  by (relation "measure (\<lambda>(n, k, i). length n - i)") (auto simp: end_index_def count_def)

declare find_loop.simps [simp del]

definition line_find :: "('k::linorder, 'v) line_node \<Rightarrow> 'k \<Rightarrow> error + nat" where
  "line_find n find_key =
     seq (min_key n) (\<lambda>k0.
       if k0 > find_key then Inr (min_index n)
       else Inr (find_loop n find_key (min_index n + 1)))"

subsection \<open>Page nodes: pool memory and load states\<close>

definition page_node_size :: nat where
  "page_node_size = 4096"

definition page_index_nil :: nat where
  "page_index_nil = 255"

text \<open>
  A pool entry is a union of a stem line, a leaf line (with the indices of its neighbours in
  the leaf list) and the link of the free list. \<open>unused\<close> is an entry that was never written.
\<close>

datatype ('k, 'v) PoolEntry =
    stem "('k, nat) line_node"
  | leaf "('k, 'v) line_node" nat nat
  | prev_head nat
  | unused

text \<open>
  \<open>pool_size = page_node_size - 6*sizeof(page_index) - 1 - sizeof(Aux)\<close> and
  \<open>pool_count = pool_size / sizeof(PoolEntry)\<close>; an entry is aligned to a line, 256 bytes.
  \<open>Aux\<close> is two pointers (16 bytes) in a leaf page and an empty struct in a stem page; the
  quotient is 15 for both.
\<close>

definition pool_count_of :: "nat \<Rightarrow> nat" where
  "pool_count_of sizeof_Aux = (page_node_size - 6 * 1 - 1 - sizeof_Aux) div line_node_size"

definition pool_count :: nat where
  "pool_count = pool_count_of 16"

definition branchout :: nat where
  "branchout = max_count_of 1 16"

text \<open>
  \<open>max_stem_levels_helper(n, b) = (n > b) ? 1 + max_stem_levels_helper(n - b, b*branchout) : 0\<close>.
  The source calls it with \<open>b = 1\<close> only; the guard \<open>0 < b\<close> makes the recursion total.
\<close>

function max_stem_levels_helper :: "nat \<Rightarrow> nat \<Rightarrow> nat" where
  "max_stem_levels_helper n b =
     (if n > b \<and> 0 < b then 1 + max_stem_levels_helper (n - b) (b * branchout) else 0)"
  by pat_completeness auto
termination
  by (relation "measure (\<lambda>(n, b). n)") auto

declare max_stem_levels_helper.simps [simp del]

definition max_stem_levels :: nat where
  "max_stem_levels = max_stem_levels_helper pool_count 1"

definition max_levels :: nat where
  "max_levels = max_stem_levels + 1"

record ('k, 'v, 'a) PageNode =
  pool_memory :: "('k, 'v) PoolEntry list"
  head_index :: nat
  back_index :: nat
  free_count :: nat
  root_index :: nat
  min_leaf_index :: nat
  max_leaf_index :: nat
  stem_levels :: nat
  aux :: 'a

definition small :: "('k, 'v, 'a) PageNode \<Rightarrow> bool" where
  "small p = (int (free_count p) > 2 * int max_levels - 1)"

definition large :: "('k, 'v, 'a) PageNode \<Rightarrow> bool" where
  "large p = (int (free_count p) \<le> 2 * int max_levels - 1)"

definition oversized :: "('k, 'v, 'a) PageNode \<Rightarrow> bool" where
  "oversized p = (int (free_count p) \<le> int max_levels - 1)"

text \<open>Reading a pool entry as a leaf line or as a stem line.\<close>

definition get_entry :: "('k, 'v, 'a) PageNode \<Rightarrow> nat \<Rightarrow> error + ('k, 'v) PoolEntry" where
  "get_entry p i = (if i < length (pool_memory p) then Inr (pool_memory p ! i) else Inl OutOfBounds)"

definition get_leaf :: "('k, 'v, 'a) PageNode \<Rightarrow> nat \<Rightarrow> error + (('k, 'v) line_node \<times> nat \<times> nat)" where
  "get_leaf p i =
     seq (get_entry p i) (\<lambda>e. case e of
         leaf n pr nx \<Rightarrow> Inr (n, pr, nx)
       | unused \<Rightarrow> Inl Uninitialized
       | _ \<Rightarrow> Inl WrongMember)"

definition get_stem :: "('k, 'v, 'a) PageNode \<Rightarrow> nat \<Rightarrow> error + ('k, nat) line_node" where
  "get_stem p i =
     seq (get_entry p i) (\<lambda>e. case e of
         stem n \<Rightarrow> Inr n
       | unused \<Rightarrow> Inl Uninitialized
       | _ \<Rightarrow> Inl WrongMember)"

definition set_entry ::
  "('k, 'v, 'a) PageNode \<Rightarrow> nat \<Rightarrow> ('k, 'v) PoolEntry \<Rightarrow> error + ('k, 'v, 'a) PageNode" where
  "set_entry p i e =
     (if i < length (pool_memory p) then Inr (p\<lparr>pool_memory := (pool_memory p)[i := e]\<rparr>)
      else Inl OutOfBounds)"

subsection \<open>Line nodes: insertion, splitting, erasure, merging and borrowing\<close>

text \<open>
  The scan of \<open>insert\<close>: the first index whose key is greater than the new key, or
  \<open>end_index()\<close> when there is none.
\<close>

function insert_index_loop :: "('k::linorder, 'v) line_node \<Rightarrow> 'k \<Rightarrow> nat \<Rightarrow> nat" where
  "insert_index_loop n new_key i =
     (if i < end_index n
      then (if fst (n ! i) > new_key then i else insert_index_loop n new_key (Suc i))
      else end_index n)"
  by pat_completeness auto
termination
  by (relation "measure (\<lambda>(n, k, i). length n - i)") (auto simp: end_index_def count_def)

declare insert_index_loop.simps [simp del]

text \<open>
  \<open>insert\<close> assumes the node is not full. On a full node \<open>move_one_back\<close> and \<open>set_elem\<close>
  write the cell after the last one of the array.
\<close>

definition line_insert ::
  "('k::linorder, 'v) line_node \<Rightarrow> 'k \<times> 'v \<Rightarrow> error + ('k, 'v) line_node" where
  "line_insert n new_elem =
     (let insert_index = insert_index_loop n (fst new_elem) (min_index n)
      in if count n < max_count
         then Inr (take insert_index n @ [new_elem] @ drop insert_index n)
         else Inl OutOfBounds)"

text \<open>\<open>split\<close>: this node keeps \<open>count_/2 + count_%2\<close> elements, the other takes the rest.\<close>

definition line_split :: "('k, 'v) line_node \<Rightarrow> ('k, 'v) line_node \<times> ('k, 'v) line_node" where
  "line_split n = (let new_count = count n div 2 + count n mod 2
                   in (take new_count n, drop new_count n))"

text \<open>
  \<open>erase\<close>: with \<open>erase_index < end_index()\<close> the tail moves one cell forward; in both cases
  \<open>count_\<close> is decremented. On an empty node the decrement wraps the 8-bit counter to 255, and
  the node then claims cells that do not exist.
\<close>

definition line_erase :: "('k, 'v) line_node \<Rightarrow> nat \<Rightarrow> error + ('k, 'v) line_node" where
  "line_erase n erase_index =
     (if count n = 0 then Inl OutOfBounds
      else if erase_index < end_index n then Inr (take erase_index n @ drop (Suc erase_index) n)
      else Inr (butlast n))"

text \<open>
  The four two-node operations return the pair (this node, neighbour). Each assumes that
  \<open>erase_index\<close> is the index of a live element; otherwise the block moves of the source range
  over cells without a live element.
\<close>

definition merge_prev_erase ::
  "('k, 'v) line_node \<Rightarrow> nat \<Rightarrow> ('k, 'v) line_node \<Rightarrow> error + (('k, 'v) line_node \<times> ('k, 'v) line_node)" where
  "merge_prev_erase n erase_index prev_node =
     (if erase_index < count n
      then (if count prev_node + (count n - 1) \<le> max_count
            then Inr ([], prev_node @ take erase_index n @ drop (Suc erase_index) n)
            else Inl OutOfBounds)
      else Inl Uninitialized)"

definition merge_next_erase ::
  "('k, 'v) line_node \<Rightarrow> nat \<Rightarrow> ('k, 'v) line_node \<Rightarrow> error + (('k, 'v) line_node \<times> ('k, 'v) line_node)" where
  "merge_next_erase n erase_index next_node =
     (if erase_index < count n
      then (if count n - 1 + count next_node \<le> max_count
            then Inr (take erase_index n @ drop (Suc erase_index) n @ next_node, [])
            else Inl OutOfBounds)
      else Inl Uninitialized)"

definition borrow_prev_erase ::
  "('k, 'v) line_node \<Rightarrow> nat \<Rightarrow> ('k, 'v) line_node \<Rightarrow> error + (('k, 'v) line_node \<times> ('k, 'v) line_node)" where
  "borrow_prev_erase n erase_index prev_node =
     (if erase_index < count n \<and> 0 < count prev_node
      then Inr (last prev_node # take erase_index n @ drop (Suc erase_index) n, butlast prev_node)
      else Inl Uninitialized)"

definition borrow_next_erase ::
  "('k, 'v) line_node \<Rightarrow> nat \<Rightarrow> ('k, 'v) line_node \<Rightarrow> error + (('k, 'v) line_node \<times> ('k, 'v) line_node)" where
  "borrow_next_erase n erase_index next_node =
     (if erase_index < count n \<and> 0 < count next_node
      then Inr (take erase_index n @ drop (Suc erase_index) n @ [hd next_node], tl next_node)
      else Inl Uninitialized)"

subsection \<open>Page nodes: allocator, constructor and positions\<close>

definition allocate :: "('k, 'v, 'a) PageNode \<Rightarrow> error + (nat \<times> ('k, 'v, 'a) PageNode)" where
  "allocate p =
     (if free_count p > 0 then
        (let p1 = p\<lparr>free_count := free_count p - 1\<rparr>;
             allocate_index = head_index p
         in if head_index p = back_index p
            then (let b = (back_index p + 1) mod 256
                  in Inr (allocate_index, p1\<lparr>head_index := b, back_index := b\<rparr>))
            else seq (get_entry p1 (head_index p)) (\<lambda>e. case e of
                     prev_head h \<Rightarrow> Inr (allocate_index, p1\<lparr>head_index := h\<rparr>)
                   | unused \<Rightarrow> Inl Uninitialized
                   | _ \<Rightarrow> Inl WrongMember))
      else Inl AssertFailed)"

definition deallocate :: "('k, 'v, 'a) PageNode \<Rightarrow> nat \<Rightarrow> error + ('k, 'v, 'a) PageNode" where
  "deallocate p deallocate_index =
     seq (set_entry (p\<lparr>free_count := (free_count p + 1) mod 256\<rparr>) deallocate_index
            (prev_head (head_index p)))
       (\<lambda>p1. Inr (p1\<lparr>head_index := deallocate_index\<rparr>))"

text \<open>
  The constructor. It does not initialise \<open>aux\<close>; the argument is the value the caller's
  memory holds there.
\<close>

definition new_PageNode :: "'a \<Rightarrow> error + ('k, 'v, 'a) PageNode" where
  "new_PageNode a =
     seq (allocate \<lparr>pool_memory = replicate pool_count unused, head_index = 0, back_index = 0,
                    free_count = pool_count, root_index = 0, min_leaf_index = 0,
                    max_leaf_index = 0, stem_levels = 0, aux = a\<rparr>)
       (\<lambda>(r, p). set_entry (p\<lparr>root_index := r, min_leaf_index := r, max_leaf_index := r,
                             stem_levels := 0\<rparr>) r (leaf [] page_index_nil page_index_nil))"

type_synonym page_position = "nat \<times> nat"

definition page_elem :: "('k, 'v, 'a) PageNode \<Rightarrow> page_position \<Rightarrow> error + ('k \<times> 'v)" where
  "page_elem p position = seq (get_leaf p (fst position)) (\<lambda>(n, pr, nx). elem n (snd position))"

definition page_key :: "('k, 'v, 'a) PageNode \<Rightarrow> page_position \<Rightarrow> error + 'k" where
  "page_key p position = seq (get_leaf p (fst position)) (\<lambda>(n, pr, nx). key n (snd position))"

definition min_position :: "('k, 'v, 'a) PageNode \<Rightarrow> error + page_position" where
  "min_position p =
     seq (get_leaf p (min_leaf_index p)) (\<lambda>(n, pr, nx). Inr (min_leaf_index p, min_index n))"

definition max_position :: "('k, 'v, 'a) PageNode \<Rightarrow> error + page_position" where
  "max_position p =
     seq (get_leaf p (max_leaf_index p)) (\<lambda>(n, pr, nx). Inr (max_leaf_index p, max_index n))"

definition end_position :: "('k, 'v, 'a) PageNode \<Rightarrow> error + page_position" where
  "end_position p =
     seq (get_leaf p (max_leaf_index p))
       (\<lambda>(n, pr, nx). Inr (max_leaf_index p, (max_index n + 1) mod 256))"

definition prev_position :: "('k, 'v, 'a) PageNode \<Rightarrow> page_position \<Rightarrow> error + page_position" where
  "prev_position p position =
     seq (get_leaf p (fst position)) (\<lambda>(n, pr, nx).
       if pr \<noteq> page_index_nil \<and> snd position = min_index n
       then seq (get_leaf p pr) (\<lambda>(m, mpr, mnx). Inr (pr, max_index m))
       else Inr (fst position, (snd position + 255) mod 256))"

definition next_position :: "('k, 'v, 'a) PageNode \<Rightarrow> page_position \<Rightarrow> error + page_position" where
  "next_position p position =
     seq (get_leaf p (fst position)) (\<lambda>(n, pr, nx).
       if nx \<noteq> page_index_nil \<and> snd position = max_index n
       then seq (get_leaf p nx) (\<lambda>(m, mpr, mnx). Inr (nx, min_index m))
       else Inr (fst position, (snd position + 1) mod 256))"

definition page_min_key :: "('k, 'v, 'a) PageNode \<Rightarrow> error + 'k" where
  "page_min_key p = seq (get_leaf p (min_leaf_index p)) (\<lambda>(n, pr, nx). min_key n)"

definition page_empty :: "('k, 'v, 'a) PageNode \<Rightarrow> error + bool" where
  "page_empty p =
     (if stem_levels p = 0
      then seq (get_leaf p (root_index p)) (\<lambda>(n, pr, nx). Inr (line_empty n))
      else Inr False)"

subsection \<open>Page nodes: searching\<close>

text \<open>
  \<open>find\<close> walks \<open>stem_levels\<close> stem lines down from the root and searches the leaf line it
  arrives at. The first argument of the loop is the number of rounds still to run.
\<close>

fun find_descend :: "nat \<Rightarrow> ('k::linorder, 'v, 'a) PageNode \<Rightarrow> 'k \<Rightarrow> nat \<Rightarrow> error + nat" where
  "find_descend 0 p find_key search_index = Inr search_index"
| "find_descend (Suc r) p find_key search_index =
     seq (get_stem p search_index) (\<lambda>search_stem.
     seq (line_find search_stem find_key) (\<lambda>i.
     seq (elem search_stem i) (\<lambda>e.
     find_descend r p find_key (snd e))))"

definition page_find :: "('k::linorder, 'v, 'a) PageNode \<Rightarrow> 'k \<Rightarrow> error + page_position" where
  "page_find p find_key =
     seq (find_descend (stem_levels p) p find_key (root_index p)) (\<lambda>search_index.
     seq (get_leaf p search_index) (\<lambda>(search_leaf, pr, nx).
     seq (line_find search_leaf find_key) (\<lambda>i.
     Inr (search_index, i))))"

text \<open>
  A \<open>Path\<close> is a \<open>std::array<page_position, max_levels>\<close> of which the entries
  \<open>0 .. stem_levels\<close> are written. The model keeps the written entries as a list;
  \<open>path_slot\<close> is the check that a written index lies inside the array and \<open>path_at\<close> reads
  an entry at a (signed) index.
\<close>

type_synonym Path = "page_position list"

definition path_slot :: "nat \<Rightarrow> error + unit" where
  "path_slot depth = (if depth < max_levels then Inr () else Inl OutOfBounds)"

definition path_at :: "Path \<Rightarrow> int \<Rightarrow> error + page_position" where
  "path_at path i =
     (if 0 \<le> i \<and> i < int (length path) then Inr (path ! nat i)
      else if 0 \<le> i \<and> i < int max_levels then Inl Uninitialized
      else Inl OutOfBounds)"

text \<open>
  The three path constructors differ in the index they take in each line: the one found for
  a key, the minimum index, or the maximum index.
\<close>

fun find_path_loop ::
  "nat \<Rightarrow> ('k::linorder, 'v, 'a) PageNode \<Rightarrow> 'k \<Rightarrow> nat \<Rightarrow> nat \<Rightarrow> error + Path" where
  "find_path_loop 0 p find_key depth search_index =
     seq (get_leaf p search_index) (\<lambda>(search_leaf, pr, nx).
     seq (path_slot depth) (\<lambda>u.
     seq (line_find search_leaf find_key) (\<lambda>i.
     Inr [(search_index, i)])))"
| "find_path_loop (Suc r) p find_key depth search_index =
     seq (get_stem p search_index) (\<lambda>search_stem.
     seq (path_slot depth) (\<lambda>u.
     seq (line_find search_stem find_key) (\<lambda>i.
     seq (elem search_stem i) (\<lambda>e.
     seq (find_path_loop r p find_key (Suc depth) (snd e)) (\<lambda>rest.
     Inr ((search_index, i) # rest))))))"

definition find_path :: "('k::linorder, 'v, 'a) PageNode \<Rightarrow> 'k \<Rightarrow> error + Path" where
  "find_path p find_key = find_path_loop (stem_levels p) p find_key 0 (root_index p)"

fun min_path_loop :: "nat \<Rightarrow> ('k, 'v, 'a) PageNode \<Rightarrow> nat \<Rightarrow> nat \<Rightarrow> error + Path" where
  "min_path_loop 0 p depth search_index =
     seq (get_leaf p search_index) (\<lambda>(search_leaf, pr, nx).
     seq (path_slot depth) (\<lambda>u.
     Inr [(search_index, min_index search_leaf)]))"
| "min_path_loop (Suc r) p depth search_index =
     seq (get_stem p search_index) (\<lambda>search_stem.
     seq (path_slot depth) (\<lambda>u.
     seq (elem search_stem (min_index search_stem)) (\<lambda>e.
     seq (min_path_loop r p (Suc depth) (snd e)) (\<lambda>rest.
     Inr ((search_index, min_index search_stem) # rest)))))"

definition min_path :: "('k, 'v, 'a) PageNode \<Rightarrow> error + Path" where
  "min_path p = min_path_loop (stem_levels p) p 0 (root_index p)"

fun max_path_loop :: "nat \<Rightarrow> ('k, 'v, 'a) PageNode \<Rightarrow> nat \<Rightarrow> nat \<Rightarrow> error + Path" where
  "max_path_loop 0 p depth search_index =
     seq (get_leaf p search_index) (\<lambda>(search_leaf, pr, nx).
     seq (path_slot depth) (\<lambda>u.
     Inr [(search_index, max_index search_leaf)]))"
| "max_path_loop (Suc r) p depth search_index =
     seq (get_stem p search_index) (\<lambda>search_stem.
     seq (path_slot depth) (\<lambda>u.
     seq (elem search_stem (max_index search_stem)) (\<lambda>e.
     seq (max_path_loop r p (Suc depth) (snd e)) (\<lambda>rest.
     Inr ((search_index, max_index search_stem) # rest)))))"

definition max_path :: "('k, 'v, 'a) PageNode \<Rightarrow> error + Path" where
  "max_path p = max_path_loop (stem_levels p) p 0 (root_index p)"

subsection \<open>Page nodes: routing keys\<close>

text \<open>Writing one field of a leaf entry through a reference to it.\<close>

definition set_leaf_line ::
  "('k, 'v, 'a) PageNode \<Rightarrow> nat \<Rightarrow> ('k, 'v) line_node \<Rightarrow> error + ('k, 'v, 'a) PageNode" where
  "set_leaf_line p i n = seq (get_leaf p i) (\<lambda>(old, pr, nx). set_entry p i (leaf n pr nx))"

definition set_prev_index ::
  "('k, 'v, 'a) PageNode \<Rightarrow> nat \<Rightarrow> nat \<Rightarrow> error + ('k, 'v, 'a) PageNode" where
  "set_prev_index p i v = seq (get_leaf p i) (\<lambda>(n, pr, nx). set_entry p i (leaf n v nx))"

definition set_next_index ::
  "('k, 'v, 'a) PageNode \<Rightarrow> nat \<Rightarrow> nat \<Rightarrow> error + ('k, 'v, 'a) PageNode" where
  "set_next_index p i v = seq (get_leaf p i) (\<lambda>(n, pr, nx). set_entry p i (leaf n pr v))"

text \<open>
  \<open>update_key\<close> rewrites the key of entry \<open>elem\<close> in the stem line at \<open>path[depth]\<close> and, while
  that entry is the first of its line, the entry above it.
\<close>

fun update_key ::
  "nat \<Rightarrow> ('k, 'v, 'a) PageNode \<Rightarrow> Path \<Rightarrow> nat \<Rightarrow> 'k \<Rightarrow> error + ('k, 'v, 'a) PageNode" where
  "update_key 0 p path elem_index new_key =
     seq (path_at path 0) (\<lambda>pos.
     seq (get_stem p (fst pos)) (\<lambda>s.
     seq (line_set_key s elem_index new_key) (\<lambda>s'.
     set_entry p (fst pos) (stem s'))))"
| "update_key (Suc d) p path elem_index new_key =
     seq (path_at path (int (Suc d))) (\<lambda>pos.
     seq (get_stem p (fst pos)) (\<lambda>s.
     seq (line_set_key s elem_index new_key) (\<lambda>s'.
     seq (set_entry p (fst pos) (stem s')) (\<lambda>p'.
     if elem_index = 0
     then seq (path_at path (int d)) (\<lambda>pos'. update_key d p' path (snd pos') new_key)
     else Inr p'))))"

text \<open>
  \<open>set_key\<close> of a page rewrites the key of a leaf element. When the element is the first of
  its line the routing keys above it follow:
  \<open>update_key(path, stem_levels - 1, path[stem_levels - 1].elem, new_key)\<close>. The index
  \<open>stem_levels - 1\<close> is computed in \<open>int\<close>; with \<open>stem_levels = 0\<close> it is \<open>-1\<close>.
\<close>

definition page_set_key ::
  "('k::linorder, 'v, 'a) PageNode \<Rightarrow> page_position \<Rightarrow> 'k \<Rightarrow> error + ('k, 'v, 'a) PageNode" where
  "page_set_key p position new_key =
     seq (get_leaf p (fst position)) (\<lambda>(n, pr, nx).
     seq (key n (snd position)) (\<lambda>old_key.
     seq (line_set_key n (snd position) new_key) (\<lambda>n'.
     seq (set_entry p (fst position) (leaf n' pr nx)) (\<lambda>p'.
     if snd position = 0
     then seq (find_path p' old_key) (\<lambda>path.
          seq (path_at path (int (stem_levels p') - 1)) (\<lambda>pos.
          update_key (nat (int (stem_levels p') - 1)) p' path (snd pos) new_key))
     else Inr p'))))"

subsection \<open>Page nodes: insertion\<close>

text \<open>
  \<open>split_root\<close> splits a full root line and puts a new stem line with two entries above the
  halves. A new entry is written as a whole when its fields have been assigned.
\<close>

definition page_split_root :: "('k::linorder, 'v, 'a) PageNode \<Rightarrow> error + ('k, 'v, 'a) PageNode" where
  "page_split_root p =
     (if stem_levels p > 0 then
        (let old_root_index = root_index p in
         seq (get_stem p old_root_index) (\<lambda>old_root.
         if full old_root then
           seq (allocate p) (\<lambda>(new_index, p1).
           let (old_root', new_stem) = line_split old_root in
           seq (set_entry p1 old_root_index (stem old_root')) (\<lambda>p2.
           seq (set_entry p2 new_index (stem new_stem)) (\<lambda>p3.
           seq (allocate p3) (\<lambda>(r, p4).
           seq (min_key old_root') (\<lambda>k1.
           seq (line_insert [] (k1, old_root_index)) (\<lambda>new_root1.
           seq (min_key new_stem) (\<lambda>k2.
           seq (line_insert new_root1 (k2, new_index)) (\<lambda>new_root2.
           seq (set_entry (p4\<lparr>root_index := r\<rparr>) r (stem new_root2)) (\<lambda>p5.
           Inr (p5\<lparr>stem_levels := (stem_levels p5 + 1) mod 256\<rparr>))))))))))
         else Inr p))
      else
        (let old_root_index = root_index p in
         seq (get_leaf p old_root_index) (\<lambda>(old_root, o_prev, o_next).
         if full old_root then
           seq (allocate p) (\<lambda>(new_index, p1).
           let (old_root', new_leaf) = line_split old_root in
           seq (set_entry p1 old_root_index (leaf old_root' o_prev new_index)) (\<lambda>p2.
           seq (set_entry p2 new_index (leaf new_leaf old_root_index page_index_nil)) (\<lambda>p3.
           seq (allocate (p3\<lparr>max_leaf_index := new_index\<rparr>)) (\<lambda>(r, p4).
           seq (min_key old_root') (\<lambda>k1.
           seq (line_insert [] (k1, old_root_index)) (\<lambda>new_root1.
           seq (min_key new_leaf) (\<lambda>k2.
           seq (line_insert new_root1 (k2, new_index)) (\<lambda>new_root2.
           seq (set_entry (p4\<lparr>root_index := r\<rparr>) r (stem new_root2)) (\<lambda>p5.
           Inr (p5\<lparr>stem_levels := (stem_levels p5 + 1) mod 256\<rparr>))))))))))
         else Inr p)))"

text \<open>
  The descent of \<open>insert\<close> through the stem levels above the last one:
  \<open>for (int depth = 0; depth < stem_levels - 1; ++depth)\<close>. It returns the page and the index
  of the stem line the loop ends in.
\<close>

fun insert_descend ::
  "nat \<Rightarrow> ('k::linorder, 'v, 'a) PageNode \<Rightarrow> 'k \<Rightarrow> nat \<Rightarrow> error + (('k, 'v, 'a) PageNode \<times> nat)" where
  "insert_descend 0 p new_key current_index = Inr (p, current_index)"
| "insert_descend (Suc r) p new_key current_index =
     seq (get_stem p current_index) (\<lambda>current_stem.
     seq (line_find current_stem new_key) (\<lambda>target_pos.
     seq (elem current_stem target_pos) (\<lambda>te.
     let target_index = snd te in
     seq (get_stem p target_index) (\<lambda>target_stem.
     seq (min_key target_stem) (\<lambda>tk.
     seq (if new_key < tk then line_set_key current_stem target_pos new_key
          else Inr current_stem) (\<lambda>current_stem1.
     seq (set_entry p current_index (stem current_stem1)) (\<lambda>p1.
     if full target_stem then
       seq (allocate p1) (\<lambda>(new_index, p2).
       let (target_stem', new_stem) = line_split target_stem in
       seq (set_entry p2 target_index (stem target_stem')) (\<lambda>p3.
       seq (set_entry p3 new_index (stem new_stem)) (\<lambda>p4.
       seq (min_key new_stem) (\<lambda>nk.
       seq (line_insert current_stem1 (nk, new_index)) (\<lambda>current_stem2.
       seq (set_entry p4 current_index (stem current_stem2)) (\<lambda>p5.
       insert_descend r p5 new_key (if new_key \<ge> nk then new_index else target_index)))))))
     else insert_descend r p1 new_key target_index)))))))"

text \<open>The last stem level of \<open>insert\<close>: the target is a leaf line, split when full.\<close>

definition insert_leaf ::
  "('k::linorder, 'v, 'a) PageNode \<Rightarrow> 'k \<times> 'v \<Rightarrow> nat \<Rightarrow> error + ('k, 'v, 'a) PageNode" where
  "insert_leaf p new_elem current_index =
     (let new_key = fst new_elem in
     seq (get_stem p current_index) (\<lambda>current_stem.
     seq (line_find current_stem new_key) (\<lambda>target_pos.
     seq (elem current_stem target_pos) (\<lambda>te.
     let target_index = snd te in
     seq (get_leaf p target_index) (\<lambda>(target_leaf, t_prev, t_next).
     seq (min_key target_leaf) (\<lambda>tk.
     seq (if new_key < tk then line_set_key current_stem target_pos new_key
          else Inr current_stem) (\<lambda>current_stem1.
     seq (set_entry p current_index (stem current_stem1)) (\<lambda>p1.
     if full target_leaf then
       seq (allocate p1) (\<lambda>(new_index, p2).
       let (target_leaf', new_leaf) = line_split target_leaf in
       seq (min_key new_leaf) (\<lambda>nk.
       seq (line_insert current_stem1 (nk, new_index)) (\<lambda>current_stem2.
       seq (set_entry p2 current_index (stem current_stem2)) (\<lambda>p3.
       seq (if t_next \<noteq> page_index_nil then set_prev_index p3 t_next new_index
            else Inr p3) (\<lambda>p4.
       let p5 = (if max_leaf_index p4 = target_index then p4\<lparr>max_leaf_index := new_index\<rparr>
                 else p4) in
       if new_key \<ge> nk then
         seq (line_insert new_leaf new_elem) (\<lambda>new_leaf'.
         seq (set_entry p5 target_index (leaf target_leaf' t_prev new_index)) (\<lambda>p6.
         set_entry p6 new_index (leaf new_leaf' target_index t_next)))
       else
         seq (line_insert target_leaf' new_elem) (\<lambda>target_leaf''.
         seq (set_entry p5 target_index (leaf target_leaf'' t_prev new_index)) (\<lambda>p6.
         set_entry p6 new_index (leaf new_leaf target_index t_next))))))))
     else
       seq (line_insert target_leaf new_elem) (\<lambda>target_leaf'.
       set_entry p1 target_index (leaf target_leaf' t_prev t_next))))))))))"

definition page_insert ::
  "('k::linorder, 'v, 'a) PageNode \<Rightarrow> 'k \<times> 'v \<Rightarrow> error + ('k, 'v, 'a) PageNode" where
  "page_insert p new_elem =
     seq (page_split_root p) (\<lambda>p1.
     if stem_levels p1 > 0 then
       seq (insert_descend (stem_levels p1 - 1) p1 (fst new_elem) (root_index p1))
         (\<lambda>(p2, current_index). insert_leaf p2 new_elem current_index)
     else
       seq (get_leaf p1 (root_index p1)) (\<lambda>(current_leaf, pr, nx).
       seq (line_insert current_leaf new_elem) (\<lambda>current_leaf'.
       set_entry p1 (root_index p1) (leaf current_leaf' pr nx))))"

text \<open>
  \<open>insert_min_leaf\<close> and \<open>insert_max_leaf\<close> register a leaf line, already linked into the
  leaf list, at the left or right end of the stem structure.
\<close>

fun insert_min_descend ::
  "nat \<Rightarrow> ('k::linorder, 'v, 'a) PageNode \<Rightarrow> 'k \<Rightarrow> nat \<Rightarrow> error + (('k, 'v, 'a) PageNode \<times> nat)" where
  "insert_min_descend 0 p new_min_key current_index = Inr (p, current_index)"
| "insert_min_descend (Suc r) p new_min_key current_index =
     seq (get_stem p current_index) (\<lambda>current_stem.
     let target_pos = min_index current_stem in
     seq (elem current_stem target_pos) (\<lambda>te.
     let target_index = snd te in
     seq (get_stem p target_index) (\<lambda>target_stem.
     seq (line_set_key current_stem target_pos new_min_key) (\<lambda>current_stem1.
     seq (set_entry p current_index (stem current_stem1)) (\<lambda>p1.
     if full target_stem then
       seq (allocate p1) (\<lambda>(new_index, p2).
       let (target_stem', new_stem) = line_split target_stem in
       seq (set_entry p2 target_index (stem target_stem')) (\<lambda>p3.
       seq (set_entry p3 new_index (stem new_stem)) (\<lambda>p4.
       seq (min_key new_stem) (\<lambda>nk.
       seq (line_insert current_stem1 (nk, new_index)) (\<lambda>current_stem2.
       seq (set_entry p4 current_index (stem current_stem2)) (\<lambda>p5.
       insert_min_descend r p5 new_min_key target_index))))))
     else insert_min_descend r p1 new_min_key target_index)))))"

definition insert_min_leaf ::
  "('k::linorder, 'v, 'a) PageNode \<Rightarrow> 'k \<Rightarrow> nat \<Rightarrow> error + ('k, 'v, 'a) PageNode" where
  "insert_min_leaf p new_min_key new_index =
     (if stem_levels p > 0 then
        seq (page_split_root p) (\<lambda>p1.
        seq (insert_min_descend (stem_levels p1 - 1) p1 new_min_key (root_index p1))
          (\<lambda>(p2, current_index).
        seq (get_stem p2 current_index) (\<lambda>current_stem.
        seq (line_insert current_stem (new_min_key, new_index)) (\<lambda>current_stem'.
        set_entry p2 current_index (stem current_stem')))))
      else
        (let old_root_index = root_index p in
         seq (get_leaf p old_root_index) (\<lambda>(old_root, pr, nx).
         seq (allocate p) (\<lambda>(r, p1).
         seq (line_insert [] (new_min_key, new_index)) (\<lambda>new_root1.
         seq (min_key old_root) (\<lambda>k.
         seq (line_insert new_root1 (k, old_root_index)) (\<lambda>new_root2.
         seq (set_entry (p1\<lparr>root_index := r\<rparr>) r (stem new_root2)) (\<lambda>p2.
         Inr (p2\<lparr>stem_levels := (stem_levels p2 + 1) mod 256\<rparr>)))))))))"

fun insert_max_descend ::
  "nat \<Rightarrow> ('k::linorder, 'v, 'a) PageNode \<Rightarrow> nat \<Rightarrow> error + (('k, 'v, 'a) PageNode \<times> nat)" where
  "insert_max_descend 0 p current_index = Inr (p, current_index)"
| "insert_max_descend (Suc r) p current_index =
     seq (get_stem p current_index) (\<lambda>current_stem.
     let target_pos = max_index current_stem in
     seq (elem current_stem target_pos) (\<lambda>te.
     let target_index = snd te in
     seq (get_stem p target_index) (\<lambda>target_stem.
     if full target_stem then
       seq (allocate p) (\<lambda>(new_index, p2).
       let (target_stem', new_stem) = line_split target_stem in
       seq (set_entry p2 target_index (stem target_stem')) (\<lambda>p3.
       seq (set_entry p3 new_index (stem new_stem)) (\<lambda>p4.
       seq (min_key new_stem) (\<lambda>nk.
       seq (line_insert current_stem (nk, new_index)) (\<lambda>current_stem2.
       seq (set_entry p4 current_index (stem current_stem2)) (\<lambda>p5.
       insert_max_descend r p5 new_index))))))
     else insert_max_descend r p target_index)))"

definition insert_max_leaf ::
  "('k::linorder, 'v, 'a) PageNode \<Rightarrow> 'k \<Rightarrow> nat \<Rightarrow> error + ('k, 'v, 'a) PageNode" where
  "insert_max_leaf p new_min_key new_index =
     (if stem_levels p > 0 then
        seq (page_split_root p) (\<lambda>p1.
        seq (insert_max_descend (stem_levels p1 - 1) p1 (root_index p1))
          (\<lambda>(p2, current_index).
        seq (get_stem p2 current_index) (\<lambda>current_stem.
        seq (line_insert current_stem (new_min_key, new_index)) (\<lambda>current_stem'.
        set_entry p2 current_index (stem current_stem')))))
      else
        (let old_root_index = root_index p in
         seq (get_leaf p old_root_index) (\<lambda>(old_root, pr, nx).
         seq (allocate p) (\<lambda>(r, p1).
         seq (min_key old_root) (\<lambda>k.
         seq (line_insert [] (k, old_root_index)) (\<lambda>new_root1.
         seq (line_insert new_root1 (new_min_key, new_index)) (\<lambda>new_root2.
         seq (set_entry (p1\<lparr>root_index := r\<rparr>) r (stem new_root2)) (\<lambda>p2.
         Inr (p2\<lparr>stem_levels := (stem_levels p2 + 1) mod 256\<rparr>)))))))))"

subsection \<open>Page nodes: erasure\<close>

text \<open>
  \<open>erase_node\<close> removes entry \<open>elem\<close> from the stem line at \<open>path[depth]\<close>. A thin line that
  is not the root merges with or borrows from a sibling under the same parent; a root left
  with one entry is dropped and the tree loses a level. The first argument is \<open>depth\<close>.
\<close>

fun erase_node ::
  "nat \<Rightarrow> ('k, 'v, 'a) PageNode \<Rightarrow> Path \<Rightarrow> nat \<Rightarrow> error + ('k, 'v, 'a) PageNode" where
  "erase_node 0 p path elem_index =
     seq (path_at path 0) (\<lambda>pos.
     let line = fst pos in
     seq (get_stem p line) (\<lambda>erase_stem.
     seq (line_erase erase_stem elem_index) (\<lambda>erase_stem'.
     seq (set_entry p line (stem erase_stem')) (\<lambda>p1.
     if count erase_stem' = 1 then
       seq (min_elem erase_stem') (\<lambda>e.
       seq (deallocate (p1\<lparr>root_index := snd e\<rparr>) line) (\<lambda>p2.
       Inr (p2\<lparr>stem_levels := (stem_levels p2 + 255) mod 256\<rparr>)))
     else Inr p1))))"
| "erase_node (Suc d) p path elem_index =
     seq (path_at path (int (Suc d))) (\<lambda>pos.
     let line = fst pos in
     seq (get_stem p line) (\<lambda>erase_stem.
     if thin erase_stem then
       seq (path_at path (int d)) (\<lambda>ppos.
       let parent_page_index = fst ppos; parent_line_index = snd ppos in
       seq (get_stem p parent_page_index) (\<lambda>parent.
       if parent_line_index > 0 then
         seq (elem parent (parent_line_index - 1)) (\<lambda>pe.
         let prev_index = snd pe in
         seq (get_stem p prev_index) (\<lambda>prev_stem.
         if count erase_stem + count prev_stem \<le> max_count then
           seq (merge_prev_erase erase_stem elem_index prev_stem) (\<lambda>(erase_stem', prev_stem').
           seq (set_entry p line (stem erase_stem')) (\<lambda>p1.
           seq (set_entry p1 prev_index (stem prev_stem')) (\<lambda>p2.
           seq (deallocate p2 line) (\<lambda>p3.
           erase_node d p3 path parent_line_index))))
         else
           seq (borrow_prev_erase erase_stem elem_index prev_stem) (\<lambda>(erase_stem', prev_stem').
           seq (set_entry p line (stem erase_stem')) (\<lambda>p1.
           seq (set_entry p1 prev_index (stem prev_stem')) (\<lambda>p2.
           seq (min_key erase_stem') (\<lambda>k.
           update_key d p2 path parent_line_index k))))))
       else
         seq (elem parent (parent_line_index + 1)) (\<lambda>ne.
         let next_index = snd ne in
         seq (get_stem p next_index) (\<lambda>next_stem.
         if count erase_stem + count next_stem \<le> max_count then
           seq (merge_next_erase erase_stem elem_index next_stem) (\<lambda>(erase_stem', next_stem').
           seq (set_entry p line (stem erase_stem')) (\<lambda>p1.
           seq (set_entry p1 next_index (stem next_stem')) (\<lambda>p2.
           seq (deallocate p2 next_index) (\<lambda>p3.
           seq (if elem_index = 0
                then seq (min_key erase_stem') (\<lambda>k. update_key d p3 path parent_line_index k)
                else Inr p3) (\<lambda>p4.
           erase_node d p4 path ((parent_line_index + 1) mod 256))))))
         else
           seq (borrow_next_erase erase_stem elem_index next_stem) (\<lambda>(erase_stem', next_stem').
           seq (set_entry p line (stem erase_stem')) (\<lambda>p1.
           seq (set_entry p1 next_index (stem next_stem')) (\<lambda>p2.
           seq (min_key next_stem') (\<lambda>nk.
           seq (update_key d p2 path ((parent_line_index + 1) mod 256) nk) (\<lambda>p3.
           if elem_index = 0
           then seq (min_key erase_stem') (\<lambda>k. update_key d p3 path parent_line_index k)
           else Inr p3)))))))))
     else
       seq (line_erase erase_stem elem_index) (\<lambda>erase_stem'.
       seq (set_entry p line (stem erase_stem')) (\<lambda>p1.
       if elem_index = 0 then
         seq (path_at path (int d)) (\<lambda>ppos.
         seq (min_key erase_stem') (\<lambda>k.
         update_key d p1 path (snd ppos) k))
       else Inr p1))))"

text \<open>
  \<open>erase\<close> removes the element at the position \<open>find_path\<close> arrives at for the key. The
  source does not compare the key found with the key given.
\<close>

definition page_erase :: "('k::linorder, 'v, 'a) PageNode \<Rightarrow> 'k \<Rightarrow> error + ('k, 'v, 'a) PageNode" where
  "page_erase p erase_key =
     seq (find_path p erase_key) (\<lambda>path.
     seq (path_at path (int (stem_levels p))) (\<lambda>pos.
     let line = fst pos; elem_index = snd pos in
     seq (get_leaf p line) (\<lambda>(erase_leaf, e_prev, e_next).
     if stem_levels p > 0 \<and> thin erase_leaf then
       seq (path_at path (int (stem_levels p) - 1)) (\<lambda>ppos.
       let parent_line_index = snd ppos in
       if e_prev \<noteq> page_index_nil then
         (let prev_index = e_prev in
         seq (get_leaf p prev_index) (\<lambda>(prev_leaf, p_prev, p_next).
         if count erase_leaf + count prev_leaf \<le> max_count then
           seq (merge_prev_erase erase_leaf elem_index prev_leaf) (\<lambda>(erase_leaf', prev_leaf').
           seq (set_leaf_line p line erase_leaf') (\<lambda>p1.
           seq (set_leaf_line p1 prev_index prev_leaf') (\<lambda>p2.
           seq (if e_next \<noteq> page_index_nil then set_prev_index p2 e_next prev_index
                else Inr p2) (\<lambda>p3.
           seq (set_next_index p3 prev_index e_next) (\<lambda>p4.
           let p5 = (if max_leaf_index p4 = line then p4\<lparr>max_leaf_index := prev_index\<rparr>
                     else p4) in
           seq (deallocate p5 line) (\<lambda>p6.
           erase_node (stem_levels p6 - 1) p6 path parent_line_index))))))
         else
           seq (borrow_prev_erase erase_leaf elem_index prev_leaf) (\<lambda>(erase_leaf', prev_leaf').
           seq (set_leaf_line p line erase_leaf') (\<lambda>p1.
           seq (set_leaf_line p1 prev_index prev_leaf') (\<lambda>p2.
           seq (min_key erase_leaf') (\<lambda>k.
           update_key (stem_levels p2 - 1) p2 path parent_line_index k))))))
       else
         (let next_index = e_next in
         seq (get_leaf p next_index) (\<lambda>(next_leaf, n_prev, n_next).
         if count erase_leaf + count next_leaf \<le> max_count then
           seq (merge_next_erase erase_leaf elem_index next_leaf) (\<lambda>(erase_leaf', next_leaf').
           seq (set_leaf_line p line erase_leaf') (\<lambda>p1.
           seq (set_leaf_line p1 next_index next_leaf') (\<lambda>p2.
           seq (if n_next \<noteq> page_index_nil then set_prev_index p2 n_next line
                else Inr p2) (\<lambda>p3.
           seq (set_next_index p3 line n_next) (\<lambda>p4.
           let p5 = (if max_leaf_index p4 = next_index then p4\<lparr>max_leaf_index := line\<rparr>
                     else p4) in
           seq (deallocate p5 next_index) (\<lambda>p6.
           seq (if elem_index = 0
                then seq (min_key erase_leaf') (\<lambda>k.
                     update_key (stem_levels p6 - 1) p6 path parent_line_index k)
                else Inr p6) (\<lambda>p7.
           erase_node (stem_levels p7 - 1) p7 path ((parent_line_index + 1) mod 256))))))))
         else
           seq (borrow_next_erase erase_leaf elem_index next_leaf) (\<lambda>(erase_leaf', next_leaf').
           seq (set_leaf_line p line erase_leaf') (\<lambda>p1.
           seq (set_leaf_line p1 next_index next_leaf') (\<lambda>p2.
           seq (min_key next_leaf') (\<lambda>nk.
           seq (update_key (stem_levels p2 - 1) p2 path ((parent_line_index + 1) mod 256) nk)
             (\<lambda>p3.
           if elem_index = 0
           then seq (min_key erase_leaf') (\<lambda>k.
                update_key (stem_levels p3 - 1) p3 path parent_line_index k)
           else Inr p3))))))))
     else
       seq (line_erase erase_leaf elem_index) (\<lambda>erase_leaf'.
       seq (set_leaf_line p line erase_leaf') (\<lambda>p1.
       if stem_levels p1 > 0 \<and> elem_index = 0 then
         seq (path_at path (int (stem_levels p1) - 1)) (\<lambda>ppos.
         seq (min_key erase_leaf') (\<lambda>k.
         update_key (stem_levels p1 - 1) p1 path (snd ppos) k))
       else Inr p1)))))"

subsection \<open>Page nodes: moving a leaf line between pages\<close>

text \<open>The loop \<open>for (int i = 0; i < old_leaf.count(); ++i) insert(old_leaf.elem(i))\<close>.\<close>

fun insert_all ::
  "('k::linorder, 'v, 'a) PageNode \<Rightarrow> ('k \<times> 'v) list \<Rightarrow> error + ('k, 'v, 'a) PageNode" where
  "insert_all p [] = Inr p"
| "insert_all p (e # es) = seq (page_insert p e) (\<lambda>p1. insert_all p1 es)"

text \<open>
  The tail shared by \<open>borrow_prev\<close> and \<open>split_one_leaf\<close>: the donor drops its maximum leaf
  line \<open>old_index\<close>, the end of the path \<open>path\<close>.
\<close>

definition drop_max_leaf ::
  "('k, 'v, 'a) PageNode \<Rightarrow> Path \<Rightarrow> nat \<Rightarrow> error + ('k, 'v, 'a) PageNode" where
  "drop_max_leaf p path old_index =
     (if stem_levels p \<noteq> 0 then
        seq (get_leaf p old_index) (\<lambda>(old_leaf, o_prev, o_next).
        let p1 = p\<lparr>max_leaf_index := o_prev\<rparr> in
        seq (set_next_index p1 (max_leaf_index p1) page_index_nil) (\<lambda>p2.
        seq (deallocate p2 old_index) (\<lambda>p3.
        seq (path_at path (int (stem_levels p3) - 1)) (\<lambda>ppos.
        erase_node (stem_levels p3 - 1) p3 path (snd ppos)))))
      else set_leaf_line p old_index [])"

text \<open>
  \<open>borrow_prev\<close> moves the maximum leaf line of the previous page to the front of this page.
  The result is the pair (this page, previous page).
\<close>

definition borrow_prev ::
  "('k::linorder, 'v, 'a) PageNode \<Rightarrow> ('k, 'v, 'a) PageNode \<Rightarrow>
     error + (('k, 'v, 'a) PageNode \<times> ('k, 'v, 'a) PageNode)" where
  "borrow_prev p prev_page =
     seq (max_path prev_page) (\<lambda>prev_path.
     seq (path_at prev_path (int (stem_levels prev_page))) (\<lambda>opos.
     let old_index = fst opos in
     seq (get_leaf prev_page old_index) (\<lambda>(old_leaf, o_prev, o_next).
     seq (if count old_leaf < min_count then insert_all p old_leaf
          else
            seq (min_path p) (\<lambda>this_path.
            seq (allocate p) (\<lambda>(new_index, p1).
            seq (path_at this_path (int (stem_levels p1))) (\<lambda>npos.
            let next_index = fst npos in
            seq (set_prev_index p1 next_index new_index) (\<lambda>p2.
            seq (set_entry p2 new_index (leaf old_leaf page_index_nil next_index)) (\<lambda>p3.
            seq (min_key old_leaf) (\<lambda>k.
            insert_min_leaf (p3\<lparr>min_leaf_index := new_index\<rparr>) k new_index))))))) (\<lambda>p'.
     seq (drop_max_leaf prev_page prev_path old_index) (\<lambda>prev_page'.
     Inr (p', prev_page'))))))"

text \<open>
  The loop of \<open>borrow_next\<close> that rewrites keys on the minimum path of the next page:
  \<open>for (int depth = 0; depth < next_page.stem_levels - 1; ++depth)\<close>.
\<close>

fun set_path_keys ::
  "nat \<Rightarrow> ('k, 'v, 'a) PageNode \<Rightarrow> Path \<Rightarrow> nat \<Rightarrow> 'k \<Rightarrow> error + ('k, 'v, 'a) PageNode" where
  "set_path_keys 0 p path depth new_key = Inr p"
| "set_path_keys (Suc r) p path depth new_key =
     seq (path_at path (int depth)) (\<lambda>pos.
     seq (get_stem p (fst pos)) (\<lambda>s.
     seq (line_set_key s (snd pos) new_key) (\<lambda>s'.
     seq (set_entry p (fst pos) (stem s')) (\<lambda>p1.
     set_path_keys r p1 path (Suc depth) new_key))))"

text \<open>
  \<open>borrow_next\<close> moves the minimum leaf line of the next page to the back of this page. The
  result is the pair (this page, next page). The entry index handed to \<open>erase_node\<close> is
  \<open>next_path[stem_levels - 1].elem\<close>, with the \<open>stem_levels\<close> of this page.
\<close>

definition borrow_next ::
  "('k::linorder, 'v, 'a) PageNode \<Rightarrow> ('k, 'v, 'a) PageNode \<Rightarrow>
     error + (('k, 'v, 'a) PageNode \<times> ('k, 'v, 'a) PageNode)" where
  "borrow_next p next_page =
     seq (min_path next_page) (\<lambda>next_path.
     seq (path_at next_path (int (stem_levels next_page))) (\<lambda>opos.
     let old_index = fst opos in
     seq (get_leaf next_page old_index) (\<lambda>(old_leaf, o_prev, o_next).
     seq (if count old_leaf < min_count
          then seq (insert_all p old_leaf) (\<lambda>p'. Inr (p', next_page))
          else
            seq (max_path p) (\<lambda>this_path.
            seq (allocate p) (\<lambda>(new_index, p1).
            seq (path_at this_path (int (stem_levels p1))) (\<lambda>ppos.
            let prev_index = fst ppos in
            seq (set_next_index p1 prev_index new_index) (\<lambda>p2.
            seq (set_entry p2 new_index (leaf old_leaf prev_index page_index_nil)) (\<lambda>p3.
            seq (page_min_key next_page) (\<lambda>new_key.
            seq (set_path_keys (stem_levels next_page - 1) next_page next_path 0 new_key)
              (\<lambda>next_page1.
            seq (min_key old_leaf) (\<lambda>k.
            seq (insert_max_leaf (p3\<lparr>max_leaf_index := new_index\<rparr>) k new_index) (\<lambda>p'.
            Inr (p', next_page1))))))))))) (\<lambda>(p', next_page1).
     if stem_levels next_page1 \<noteq> 0 then
       (let next_page2 = next_page1\<lparr>min_leaf_index := o_next\<rparr> in
       seq (set_prev_index next_page2 (min_leaf_index next_page2) page_index_nil) (\<lambda>next_page3.
       seq (deallocate next_page3 old_index) (\<lambda>next_page4.
       seq (path_at next_path (int (stem_levels p') - 1)) (\<lambda>epos.
       seq (erase_node (stem_levels next_page4 - 1) next_page4 next_path (snd epos))
         (\<lambda>next_page5.
       Inr (p', next_page5))))))
     else
       seq (set_leaf_line next_page1 old_index []) (\<lambda>next_page2.
       Inr (p', next_page2))))))"

text \<open>
  \<open>split_one_leaf\<close> copies the maximum leaf line into the root line of a new page and drops
  it from this page. The result is the pair (this page, new page); \<open>a\<close> is what the
  uninitialised \<open>aux\<close> of the new page holds.
\<close>

definition split_one_leaf ::
  "('k, 'v, 'a) PageNode \<Rightarrow> 'a \<Rightarrow> error + (('k, 'v, 'a) PageNode \<times> ('k, 'v, 'a) PageNode)" where
  "split_one_leaf p a =
     seq (max_path p) (\<lambda>this_path.
     seq (new_PageNode a) (\<lambda>new_page.
     let new_index = root_index new_page in
     seq (path_at this_path (int (stem_levels p))) (\<lambda>opos.
     let old_index = fst opos in
     seq (get_leaf p old_index) (\<lambda>(old_leaf, o_prev, o_next).
     seq (set_leaf_line new_page new_index old_leaf) (\<lambda>new_page'.
     seq (drop_max_leaf p this_path old_index) (\<lambda>p'.
     Inr (p', new_page')))))))"

subsection \<open>The outer tree: heap, pointers and positions\<close>

text \<open>
  Page nodes live on the heap and are referred to by \<open>void*\<close>. The heap is a list of page
  objects, a pointer is the index of one. \<open>indeterminate\<close> is the value of a pointer field
  that was never assigned: \<open>new PageNode\<close> runs a constructor that leaves \<open>aux\<close> alone.
  A page object is a stem page (elements of type \<open>pair<const Key, void*>\<close>), a leaf page
  (the user's elements) or the remains of a deleted page.
\<close>

datatype pointer = nullptr | address nat | indeterminate

record leaf_aux =
  prev_pointer :: pointer
  next_pointer :: pointer

type_synonym 'k stem_page = "('k, pointer, unit) PageNode"
type_synonym ('k, 'v) leaf_page = "('k, 'v, leaf_aux) PageNode"

datatype ('k, 'v) page_object =
    stem_object "'k stem_page"
  | leaf_object "('k, 'v) leaf_page"
  | deleted

record ('k, 'v) kernel =
  heap :: "('k, 'v) page_object list"
  root_pointer :: pointer
  min_leaf_pointer :: pointer
  max_leaf_pointer :: pointer
  kernel_stem_levels :: int

type_synonym tree_position = "pointer \<times> page_position"

definition fresh_leaf_aux :: leaf_aux where
  "fresh_leaf_aux = \<lparr>prev_pointer = indeterminate, next_pointer = indeterminate\<rparr>"

definition deref :: "('k, 'v) kernel \<Rightarrow> pointer \<Rightarrow> error + (nat \<times> ('k, 'v) page_object)" where
  "deref t ptr =
     (case ptr of
        nullptr \<Rightarrow> Inl NullPointer
      | indeterminate \<Rightarrow> Inl Uninitialized
      | address a \<Rightarrow>
          if a < length (heap t)
          then (case heap t ! a of deleted \<Rightarrow> Inl UseAfterFree | obj \<Rightarrow> Inr (a, obj))
          else Inl OutOfBounds)"

definition get_stem_page :: "('k, 'v) kernel \<Rightarrow> pointer \<Rightarrow> error + 'k stem_page" where
  "get_stem_page t ptr =
     seq (deref t ptr) (\<lambda>(a, obj). case obj of stem_object p \<Rightarrow> Inr p | _ \<Rightarrow> Inl WrongMember)"

definition get_leaf_page :: "('k, 'v) kernel \<Rightarrow> pointer \<Rightarrow> error + ('k, 'v) leaf_page" where
  "get_leaf_page t ptr =
     seq (deref t ptr) (\<lambda>(a, obj). case obj of leaf_object p \<Rightarrow> Inr p | _ \<Rightarrow> Inl WrongMember)"

definition put_page ::
  "('k, 'v) kernel \<Rightarrow> pointer \<Rightarrow> ('k, 'v) page_object \<Rightarrow> error + ('k, 'v) kernel" where
  "put_page t ptr obj =
     seq (deref t ptr) (\<lambda>(a, old). Inr (t\<lparr>heap := (heap t)[a := obj]\<rparr>))"

definition put_stem_page :: "('k, 'v) kernel \<Rightarrow> pointer \<Rightarrow> 'k stem_page \<Rightarrow> error + ('k, 'v) kernel" where
  "put_stem_page t ptr p = put_page t ptr (stem_object p)"

definition put_leaf_page ::
  "('k, 'v) kernel \<Rightarrow> pointer \<Rightarrow> ('k, 'v) leaf_page \<Rightarrow> error + ('k, 'v) kernel" where
  "put_leaf_page t ptr p = put_page t ptr (leaf_object p)"

definition new_page :: "('k, 'v) kernel \<Rightarrow> ('k, 'v) page_object \<Rightarrow> pointer \<times> ('k, 'v) kernel" where
  "new_page t obj = (address (length (heap t)), t\<lparr>heap := heap t @ [obj]\<rparr>)"

definition delete_page :: "('k, 'v) kernel \<Rightarrow> pointer \<Rightarrow> error + ('k, 'v) kernel" where
  "delete_page t ptr = put_page t ptr deleted"

text \<open>The constructor of \<open>kernel\<close>: one empty leaf page, its list pointers set to null.\<close>

definition new_kernel :: "error + ('k, 'v) kernel" where
  "new_kernel =
     seq (new_PageNode fresh_leaf_aux) (\<lambda>root.
     Inr \<lparr>heap = [leaf_object (root\<lparr>aux := \<lparr>prev_pointer = nullptr, next_pointer = nullptr\<rparr>\<rparr>)],
          root_pointer = address 0, min_leaf_pointer = address 0,
          max_leaf_pointer = address 0, kernel_stem_levels = 0\<rparr>)"

definition kernel_empty :: "('k, 'v) kernel \<Rightarrow> error + bool" where
  "kernel_empty t =
     (if kernel_stem_levels t = 0
      then seq (get_leaf_page t (root_pointer t)) page_empty
      else Inr False)"

subsection \<open>The outer tree: searching and iterating\<close>

fun kernel_find_descend ::
  "nat \<Rightarrow> ('k::linorder, 'v) kernel \<Rightarrow> 'k \<Rightarrow> pointer \<Rightarrow> error + pointer" where
  "kernel_find_descend 0 t find_key search_pointer = Inr search_pointer"
| "kernel_find_descend (Suc r) t find_key search_pointer =
     seq (get_stem_page t search_pointer) (\<lambda>search_stem.
     seq (page_find search_stem find_key) (\<lambda>pos.
     seq (page_elem search_stem pos) (\<lambda>e.
     kernel_find_descend r t find_key (snd e))))"

definition find_implementation :: "('k::linorder, 'v) kernel \<Rightarrow> 'k \<Rightarrow> error + tree_position" where
  "find_implementation t find_key =
     seq (kernel_find_descend (nat (kernel_stem_levels t)) t find_key (root_pointer t))
       (\<lambda>search_pointer.
     seq (get_leaf_page t search_pointer) (\<lambda>leaf_pg.
     seq (page_find leaf_pg find_key) (\<lambda>pos.
     Inr (search_pointer, pos))))"

text \<open>An iterator is the position it holds; the tree it belongs to is the argument.\<close>

definition kernel_find :: "('k::linorder, 'v) kernel \<Rightarrow> 'k \<Rightarrow> error + tree_position" where
  "kernel_find t find_key = find_implementation t find_key"

definition kernel_elem :: "('k, 'v) kernel \<Rightarrow> tree_position \<Rightarrow> error + ('k \<times> 'v)" where
  "kernel_elem t position =
     seq (get_leaf_page t (fst position)) (\<lambda>pg. page_elem pg (snd position))"

text \<open>\<open>operator[]\<close>: the mapped value at the position found, without a check of the key.\<close>

definition subscript :: "('k::linorder, 'v) kernel \<Rightarrow> 'k \<Rightarrow> error + 'v" where
  "subscript t find_key =
     seq (find_implementation t find_key) (\<lambda>position.
     seq (kernel_elem t position) (\<lambda>e. Inr (snd e)))"

definition kernel_begin :: "('k, 'v) kernel \<Rightarrow> error + tree_position" where
  "kernel_begin t =
     seq (get_leaf_page t (min_leaf_pointer t)) (\<lambda>pg.
     seq (min_position pg) (\<lambda>pos. Inr (min_leaf_pointer t, pos)))"

definition kernel_end :: "('k, 'v) kernel \<Rightarrow> error + tree_position" where
  "kernel_end t =
     seq (get_leaf_page t (max_leaf_pointer t)) (\<lambda>pg.
     seq (end_position pg) (\<lambda>pos. Inr (max_leaf_pointer t, pos)))"

text \<open>\<open>operator++\<close> of the iterator.\<close>

definition increment :: "('k, 'v) kernel \<Rightarrow> tree_position \<Rightarrow> error + tree_position" where
  "increment t position =
     seq (get_leaf_page t (fst position)) (\<lambda>leaf_pg.
     case next_pointer (aux leaf_pg) of
       indeterminate \<Rightarrow> Inl Uninitialized
     | nullptr \<Rightarrow> seq (next_position leaf_pg (snd position)) (\<lambda>pos. Inr (fst position, pos))
     | address a \<Rightarrow>
         seq (max_position leaf_pg) (\<lambda>mpos.
         if snd position = mpos
         then seq (get_leaf_page t (address a)) (\<lambda>next_pg.
              seq (min_position next_pg) (\<lambda>pos. Inr (address a, pos)))
         else seq (next_position leaf_pg (snd position)) (\<lambda>pos. Inr (fst position, pos))))"

text \<open>
  The loop \<open>for (auto it = begin(); it != end(); ++it)\<close>, collecting \<open>*it\<close>. The first argument
  bounds the number of steps.
\<close>

fun iterate_from ::
  "nat \<Rightarrow> ('k, 'v) kernel \<Rightarrow> tree_position \<Rightarrow> tree_position \<Rightarrow> error + ('k \<times> 'v) list" where
  "iterate_from 0 t it end_it = (if it = end_it then Inr [] else Inl OutOfFuel)"
| "iterate_from (Suc f) t it end_it =
     (if it = end_it then Inr []
      else seq (kernel_elem t it) (\<lambda>e.
           seq (increment t it) (\<lambda>it'.
           seq (iterate_from f t it' end_it) (\<lambda>es. Inr (e # es)))))"

definition iterate :: "nat \<Rightarrow> ('k, 'v) kernel \<Rightarrow> error + ('k \<times> 'v) list" where
  "iterate fuel t =
     seq (kernel_begin t) (\<lambda>b.
     seq (kernel_end t) (\<lambda>e.
     iterate_from fuel t b e))"

subsection \<open>The outer tree: insertion\<close>

text \<open>
  The loops that move leaf lines between two pages. Their first argument bounds the number
  of rounds: a loop that has not met its exit condition by then returns \<open>OutOfFuel\<close>.
  \<open>loop_fuel\<close> is the bound the operations of the tree use.
\<close>

definition loop_fuel :: nat where
  "loop_fuel = 256"

text \<open>\<open>while (target.oversized()) { other.borrow_prev(target); }\<close>, result (other, target).\<close>

fun borrow_prev_while_oversized ::
  "nat \<Rightarrow> ('k::linorder, 'v, 'a) PageNode \<Rightarrow> ('k, 'v, 'a) PageNode \<Rightarrow>
     error + (('k, 'v, 'a) PageNode \<times> ('k, 'v, 'a) PageNode)" where
  "borrow_prev_while_oversized 0 other target =
     (if oversized target then Inl OutOfFuel else Inr (other, target))"
| "borrow_prev_while_oversized (Suc f) other target =
     (if oversized target
      then seq (borrow_prev other target) (\<lambda>(other', target').
           borrow_prev_while_oversized f other' target')
      else Inr (other, target))"

text \<open>\<open>while (target.oversized()) { other.borrow_next(target); }\<close>, result (other, target).\<close>

fun borrow_next_while_oversized ::
  "nat \<Rightarrow> ('k::linorder, 'v, 'a) PageNode \<Rightarrow> ('k, 'v, 'a) PageNode \<Rightarrow>
     error + (('k, 'v, 'a) PageNode \<times> ('k, 'v, 'a) PageNode)" where
  "borrow_next_while_oversized 0 other target =
     (if oversized target then Inl OutOfFuel else Inr (other, target))"
| "borrow_next_while_oversized (Suc f) other target =
     (if oversized target
      then seq (borrow_next other target) (\<lambda>(other', target').
           borrow_next_while_oversized f other' target')
      else Inr (other, target))"

text \<open>
  \<open>split_one_leaf\<close> followed by the loop that moves further lines into the new page, as the
  source does in \<open>split_root\<close> and in the third remedy of \<open>insert\<close>. Result (page, new page).
\<close>

definition split_off ::
  "('k::linorder, 'v, 'a) PageNode \<Rightarrow> 'a \<Rightarrow>
     error + (('k, 'v, 'a) PageNode \<times> ('k, 'v, 'a) PageNode)" where
  "split_off p a =
     seq (split_one_leaf p a) (\<lambda>(p1, new_pg).
     seq (borrow_prev_while_oversized loop_fuel new_pg p1) (\<lambda>(new_pg', p2).
     Inr (p2, new_pg')))"

text \<open>The new root of \<open>split_root\<close>: a stem page with the two halves as its entries.\<close>

definition two_entry_root ::
  "'k::linorder \<Rightarrow> pointer \<Rightarrow> 'k \<Rightarrow> pointer \<Rightarrow> error + 'k stem_page" where
  "two_entry_root k1 ptr1 k2 ptr2 =
     seq (new_PageNode ()) (\<lambda>new_root.
     seq (page_insert new_root (k1, ptr1)) (\<lambda>new_root1.
     page_insert new_root1 (k2, ptr2)))"

definition kernel_split_root :: "('k::linorder, 'v) kernel \<Rightarrow> error + ('k, 'v) kernel" where
  "kernel_split_root t =
     (if kernel_stem_levels t > 0 then
        (let old_root_pointer = root_pointer t in
         seq (get_stem_page t old_root_pointer) (\<lambda>old_root.
         if oversized old_root then
           seq (split_off old_root ()) (\<lambda>(old_root', new_stem).
           let (new_pointer, t1) = new_page t (stem_object new_stem) in
           seq (put_stem_page t1 old_root_pointer old_root') (\<lambda>t2.
           seq (page_min_key old_root') (\<lambda>k1.
           seq (page_min_key new_stem) (\<lambda>k2.
           seq (two_entry_root k1 old_root_pointer k2 new_pointer) (\<lambda>new_root.
           let (r, t3) = new_page t2 (stem_object new_root) in
           Inr (t3\<lparr>root_pointer := r, kernel_stem_levels := kernel_stem_levels t3 + 1\<rparr>))))))
         else Inr t))
      else
        (let old_root_pointer = root_pointer t in
         seq (get_leaf_page t old_root_pointer) (\<lambda>old_root.
         if oversized old_root then
           seq (split_off old_root fresh_leaf_aux) (\<lambda>(old_root', new_leaf).
           let new_leaf' = new_leaf\<lparr>aux := (aux new_leaf)\<lparr>prev_pointer := old_root_pointer\<rparr>\<rparr>;
               (new_pointer, t1) = new_page t (leaf_object new_leaf');
               old_root'' = old_root'\<lparr>aux := (aux old_root')\<lparr>next_pointer := new_pointer\<rparr>\<rparr> in
           seq (put_leaf_page (t1\<lparr>max_leaf_pointer := new_pointer\<rparr>) old_root_pointer old_root'')
             (\<lambda>t2.
           seq (page_min_key old_root'') (\<lambda>k1.
           seq (page_min_key new_leaf') (\<lambda>k2.
           seq (two_entry_root k1 old_root_pointer k2 new_pointer) (\<lambda>new_root.
           let (r, t3) = new_page t2 (stem_object new_root) in
           Inr (t3\<lparr>root_pointer := r, kernel_stem_levels := kernel_stem_levels t3 + 1\<rparr>))))))
         else Inr t)))"

text \<open>
  One round of the descent through the stem pages,
  \<open>for (int depth = 0; depth < stem_levels - 1; ++depth)\<close>: the target child is a stem page.
  The three remedies for an oversized target are tried in the order of the source; each
  definition below is the code from one \<open>if\<close> to the end of the loop body. Each returns the
  tree and the pointer the next round starts from.
\<close>

definition stem_plain ::
  "('k::linorder, 'v) kernel \<Rightarrow> pointer \<Rightarrow> page_position \<Rightarrow> pointer \<Rightarrow> 'k \<Rightarrow>
     error + (('k, 'v) kernel \<times> pointer)" where
  "stem_plain t current_pointer target_pos target_pointer new_key =
     seq (get_stem_page t current_pointer) (\<lambda>current_stem.
     seq (get_stem_page t target_pointer) (\<lambda>target_stem.
     if oversized target_stem then
       seq (split_off target_stem ()) (\<lambda>(target_stem', new_stem).
       let (new_pointer, t1) = new_page t (stem_object new_stem) in
       seq (put_stem_page t1 target_pointer target_stem') (\<lambda>t2.
       seq (page_min_key new_stem) (\<lambda>nk.
       seq (page_insert current_stem (nk, new_pointer)) (\<lambda>current_stem1.
       if new_key \<ge> nk then
         seq (put_stem_page t2 current_pointer current_stem1) (\<lambda>t3. Inr (t3, new_pointer))
       else
         seq (page_min_key target_stem') (\<lambda>tk.
         seq (if new_key < tk then page_set_key current_stem1 target_pos new_key
              else Inr current_stem1) (\<lambda>current_stem2.
         seq (put_stem_page t2 current_pointer current_stem2) (\<lambda>t3.
         Inr (t3, target_pointer))))))))
     else
       seq (page_min_key target_stem) (\<lambda>tk.
       seq (if new_key < tk then page_set_key current_stem target_pos new_key
            else Inr current_stem) (\<lambda>current_stem1.
       seq (put_stem_page t current_pointer current_stem1) (\<lambda>t1.
       Inr (t1, target_pointer))))))"

definition stem_offload_next ::
  "('k::linorder, 'v) kernel \<Rightarrow> pointer \<Rightarrow> page_position \<Rightarrow> pointer \<Rightarrow> 'k \<Rightarrow>
     error + (('k, 'v) kernel \<times> pointer)" where
  "stem_offload_next t current_pointer target_pos target_pointer new_key =
     seq (get_stem_page t current_pointer) (\<lambda>current_stem.
     seq (get_stem_page t target_pointer) (\<lambda>target_stem.
     if oversized target_stem then
       seq (max_position current_stem) (\<lambda>maxpos.
       if target_pos \<noteq> maxpos then
         seq (next_position current_stem target_pos) (\<lambda>next_pos.
         seq (page_elem current_stem next_pos) (\<lambda>ne.
         let next_pointer = snd ne in
         seq (get_stem_page t next_pointer) (\<lambda>next_stem.
         if small next_stem then
           seq (borrow_prev_while_oversized loop_fuel next_stem target_stem)
             (\<lambda>(next_stem', target_stem').
           seq (put_stem_page t next_pointer next_stem') (\<lambda>t1.
           seq (put_stem_page t1 target_pointer target_stem') (\<lambda>t2.
           seq (page_min_key next_stem') (\<lambda>nk.
           seq (page_set_key current_stem next_pos nk) (\<lambda>current_stem1.
           if new_key \<ge> nk then
             seq (put_stem_page t2 current_pointer current_stem1) (\<lambda>t3.
             Inr (t3, next_pointer))
           else
             seq (page_min_key target_stem') (\<lambda>tk.
             seq (if new_key < tk then page_set_key current_stem1 target_pos new_key
                  else Inr current_stem1) (\<lambda>current_stem2.
             seq (put_stem_page t2 current_pointer current_stem2) (\<lambda>t3.
             Inr (t3, target_pointer)))))))))
         else stem_plain t current_pointer target_pos target_pointer new_key)))
       else stem_plain t current_pointer target_pos target_pointer new_key)
     else stem_plain t current_pointer target_pos target_pointer new_key))"

definition stem_offload_prev ::
  "('k::linorder, 'v) kernel \<Rightarrow> pointer \<Rightarrow> page_position \<Rightarrow> pointer \<Rightarrow> 'k \<Rightarrow>
     error + (('k, 'v) kernel \<times> pointer)" where
  "stem_offload_prev t current_pointer target_pos target_pointer new_key =
     seq (get_stem_page t current_pointer) (\<lambda>current_stem.
     seq (get_stem_page t target_pointer) (\<lambda>target_stem.
     if oversized target_stem then
       seq (min_position current_stem) (\<lambda>minpos.
       if target_pos \<noteq> minpos then
         seq (prev_position current_stem target_pos) (\<lambda>prev_pos.
         seq (page_elem current_stem prev_pos) (\<lambda>pe.
         let prev_pointer = snd pe in
         seq (get_stem_page t prev_pointer) (\<lambda>prev_stem.
         if small prev_stem then
           seq (borrow_next_while_oversized loop_fuel prev_stem target_stem)
             (\<lambda>(prev_stem', target_stem').
           seq (put_stem_page t prev_pointer prev_stem') (\<lambda>t1.
           seq (put_stem_page t1 target_pointer target_stem') (\<lambda>t2.
           seq (page_min_key target_stem') (\<lambda>tk.
           seq (page_set_key current_stem target_pos tk) (\<lambda>current_stem1.
           if new_key < tk then
             seq (page_min_key prev_stem') (\<lambda>pk.
             seq (if new_key < pk then page_set_key current_stem1 prev_pos new_key
                  else Inr current_stem1) (\<lambda>current_stem2.
             seq (put_stem_page t2 current_pointer current_stem2) (\<lambda>t3.
             Inr (t3, prev_pointer))))
           else
             seq (put_stem_page t2 current_pointer current_stem1) (\<lambda>t3.
             Inr (t3, target_pointer)))))))
         else stem_offload_next t current_pointer target_pos target_pointer new_key)))
       else stem_offload_next t current_pointer target_pos target_pointer new_key)
     else stem_offload_next t current_pointer target_pos target_pointer new_key))"

fun kernel_insert_descend ::
  "nat \<Rightarrow> ('k::linorder, 'v) kernel \<Rightarrow> 'k \<Rightarrow> pointer \<Rightarrow> error + (('k, 'v) kernel \<times> pointer)" where
  "kernel_insert_descend 0 t new_key current_pointer = Inr (t, current_pointer)"
| "kernel_insert_descend (Suc r) t new_key current_pointer =
     seq (get_stem_page t current_pointer) (\<lambda>current_stem.
     seq (page_find current_stem new_key) (\<lambda>target_pos.
     seq (page_elem current_stem target_pos) (\<lambda>te.
     seq (stem_offload_prev t current_pointer target_pos (snd te) new_key)
       (\<lambda>(t1, next_current). kernel_insert_descend r t1 new_key next_current))))"

text \<open>
  The last level of \<open>insert\<close>: the target child is a leaf page, and the round ends with the
  insertion of the element. A new leaf page is linked into the list of leaf pages.
\<close>

definition set_prev_pointer :: "('k, 'v) kernel \<Rightarrow> pointer \<Rightarrow> pointer \<Rightarrow> error + ('k, 'v) kernel" where
  "set_prev_pointer t ptr v =
     seq (get_leaf_page t ptr) (\<lambda>pg.
     put_leaf_page t ptr (pg\<lparr>aux := (aux pg)\<lparr>prev_pointer := v\<rparr>\<rparr>))"

definition set_next_pointer :: "('k, 'v) kernel \<Rightarrow> pointer \<Rightarrow> pointer \<Rightarrow> error + ('k, 'v) kernel" where
  "set_next_pointer t ptr v =
     seq (get_leaf_page t ptr) (\<lambda>pg.
     put_leaf_page t ptr (pg\<lparr>aux := (aux pg)\<lparr>next_pointer := v\<rparr>\<rparr>))"

text \<open>Applying a page operation to the leaf page behind a pointer.\<close>

definition leaf_page_insert ::
  "('k::linorder, 'v) kernel \<Rightarrow> pointer \<Rightarrow> 'k \<times> 'v \<Rightarrow> error + ('k, 'v) kernel" where
  "leaf_page_insert t ptr new_elem =
     seq (get_leaf_page t ptr) (\<lambda>pg.
     seq (page_insert pg new_elem) (\<lambda>pg'.
     put_leaf_page t ptr pg'))"

definition leaf_plain ::
  "('k::linorder, 'v) kernel \<Rightarrow> pointer \<Rightarrow> page_position \<Rightarrow> pointer \<Rightarrow> 'k \<times> 'v \<Rightarrow>
     error + ('k, 'v) kernel" where
  "leaf_plain t current_pointer target_pos target_pointer new_elem =
     (let new_key = fst new_elem in
     seq (get_stem_page t current_pointer) (\<lambda>current_stem.
     seq (get_leaf_page t target_pointer) (\<lambda>target_leaf.
     if oversized target_leaf then
       seq (split_off target_leaf fresh_leaf_aux) (\<lambda>(target_leaf', new_leaf).
       let (new_pointer, t1) = new_page t (leaf_object new_leaf) in
       seq (put_leaf_page t1 target_pointer target_leaf') (\<lambda>t2.
       seq (page_min_key new_leaf) (\<lambda>nk.
       seq (page_insert current_stem (nk, new_pointer)) (\<lambda>current_stem1.
       seq (put_stem_page t2 current_pointer current_stem1) (\<lambda>t3.
       let target_next = next_pointer (aux target_leaf') in
       seq (case target_next of
              indeterminate \<Rightarrow> Inl Uninitialized
            | nullptr \<Rightarrow> Inr t3
            | address a \<Rightarrow> set_prev_pointer t3 target_next new_pointer) (\<lambda>t4.
       seq (set_prev_pointer t4 new_pointer target_pointer) (\<lambda>t5.
       seq (set_next_pointer t5 new_pointer target_next) (\<lambda>t6.
       seq (set_next_pointer t6 target_pointer new_pointer) (\<lambda>t7.
       let t8 = (if max_leaf_pointer t7 = target_pointer
                 then t7\<lparr>max_leaf_pointer := new_pointer\<rparr> else t7) in
       if new_key \<ge> nk then leaf_page_insert t8 new_pointer new_elem
       else
         seq (page_min_key target_leaf') (\<lambda>tk.
         seq (if new_key < tk then page_set_key current_stem1 target_pos new_key
              else Inr current_stem1) (\<lambda>current_stem2.
         seq (put_stem_page t8 current_pointer current_stem2) (\<lambda>t9.
         leaf_page_insert t9 target_pointer new_elem))))))))))))
     else
       seq (page_min_key target_leaf) (\<lambda>tk.
       seq (if new_key < tk then page_set_key current_stem target_pos new_key
            else Inr current_stem) (\<lambda>current_stem1.
       seq (put_stem_page t current_pointer current_stem1) (\<lambda>t1.
       leaf_page_insert t1 target_pointer new_elem))))))"

definition leaf_offload_next ::
  "('k::linorder, 'v) kernel \<Rightarrow> pointer \<Rightarrow> page_position \<Rightarrow> pointer \<Rightarrow> 'k \<times> 'v \<Rightarrow>
     error + ('k, 'v) kernel" where
  "leaf_offload_next t current_pointer target_pos target_pointer new_elem =
     (let new_key = fst new_elem in
     seq (get_stem_page t current_pointer) (\<lambda>current_stem.
     seq (get_leaf_page t target_pointer) (\<lambda>target_leaf.
     if oversized target_leaf then
       seq (max_position current_stem) (\<lambda>maxpos.
       if target_pos \<noteq> maxpos then
         seq (next_position current_stem target_pos) (\<lambda>next_pos.
         seq (page_elem current_stem next_pos) (\<lambda>ne.
         let next_ptr = snd ne in
         seq (get_leaf_page t next_ptr) (\<lambda>next_leaf.
         if small next_leaf then
           seq (borrow_prev_while_oversized loop_fuel next_leaf target_leaf)
             (\<lambda>(next_leaf', target_leaf').
           seq (put_leaf_page t next_ptr next_leaf') (\<lambda>t1.
           seq (put_leaf_page t1 target_pointer target_leaf') (\<lambda>t2.
           seq (page_min_key next_leaf') (\<lambda>nk.
           seq (page_set_key current_stem next_pos nk) (\<lambda>current_stem1.
           if new_key \<ge> nk then
             seq (put_stem_page t2 current_pointer current_stem1) (\<lambda>t3.
             leaf_page_insert t3 next_ptr new_elem)
           else
             seq (page_min_key target_leaf') (\<lambda>tk.
             seq (if new_key < tk then page_set_key current_stem1 target_pos new_key
                  else Inr current_stem1) (\<lambda>current_stem2.
             seq (put_stem_page t2 current_pointer current_stem2) (\<lambda>t3.
             leaf_page_insert t3 target_pointer new_elem))))))))
         else leaf_plain t current_pointer target_pos target_pointer new_elem)))
       else leaf_plain t current_pointer target_pos target_pointer new_elem)
     else leaf_plain t current_pointer target_pos target_pointer new_elem)))"

definition leaf_offload_prev ::
  "('k::linorder, 'v) kernel \<Rightarrow> pointer \<Rightarrow> page_position \<Rightarrow> pointer \<Rightarrow> 'k \<times> 'v \<Rightarrow>
     error + ('k, 'v) kernel" where
  "leaf_offload_prev t current_pointer target_pos target_pointer new_elem =
     (let new_key = fst new_elem in
     seq (get_stem_page t current_pointer) (\<lambda>current_stem.
     seq (get_leaf_page t target_pointer) (\<lambda>target_leaf.
     if oversized target_leaf then
       seq (min_position current_stem) (\<lambda>minpos.
       if target_pos \<noteq> minpos then
         seq (prev_position current_stem target_pos) (\<lambda>prev_pos.
         seq (page_elem current_stem prev_pos) (\<lambda>pe.
         let prev_ptr = snd pe in
         seq (get_leaf_page t prev_ptr) (\<lambda>prev_leaf.
         if small prev_leaf then
           seq (borrow_next_while_oversized loop_fuel prev_leaf target_leaf)
             (\<lambda>(prev_leaf', target_leaf').
           seq (put_leaf_page t prev_ptr prev_leaf') (\<lambda>t1.
           seq (put_leaf_page t1 target_pointer target_leaf') (\<lambda>t2.
           seq (page_min_key target_leaf') (\<lambda>tk.
           seq (page_set_key current_stem target_pos tk) (\<lambda>current_stem1.
           if new_key < tk then
             seq (page_min_key prev_leaf') (\<lambda>pk.
             seq (if new_key < pk then page_set_key current_stem1 prev_pos new_key
                  else Inr current_stem1) (\<lambda>current_stem2.
             seq (put_stem_page t2 current_pointer current_stem2) (\<lambda>t3.
             leaf_page_insert t3 prev_ptr new_elem)))
           else
             seq (put_stem_page t2 current_pointer current_stem1) (\<lambda>t3.
             leaf_page_insert t3 target_pointer new_elem))))))
         else leaf_offload_next t current_pointer target_pos target_pointer new_elem)))
       else leaf_offload_next t current_pointer target_pos target_pointer new_elem)
     else leaf_offload_next t current_pointer target_pos target_pointer new_elem)))"

definition kernel_insert :: "('k::linorder, 'v) kernel \<Rightarrow> 'k \<times> 'v \<Rightarrow> error + ('k, 'v) kernel" where
  "kernel_insert t new_elem =
     seq (kernel_split_root t) (\<lambda>t1.
     seq (kernel_insert_descend (nat (kernel_stem_levels t1 - 1)) t1 (fst new_elem)
            (root_pointer t1)) (\<lambda>(t2, current_pointer).
     if kernel_stem_levels t2 > 0 then
       seq (get_stem_page t2 current_pointer) (\<lambda>current_stem.
       seq (page_find current_stem (fst new_elem)) (\<lambda>target_pos.
       seq (page_elem current_stem target_pos) (\<lambda>te.
       leaf_offload_prev t2 current_pointer target_pos (snd te) new_elem)))
     else leaf_page_insert t2 current_pointer new_elem))"

subsection \<open>The outer tree: erasure\<close>

text \<open>
  The path of the outer tree is a \<open>std::vector<tree_position>\<close> with \<open>stem_levels + 1\<close>
  entries, all of them written by \<open>find_path\<close>.
\<close>

type_synonym kernel_path = "tree_position list"

fun kernel_find_path_loop ::
  "nat \<Rightarrow> ('k::linorder, 'v) kernel \<Rightarrow> 'k \<Rightarrow> pointer \<Rightarrow> error + kernel_path" where
  "kernel_find_path_loop 0 t find_key search_pointer =
     seq (get_leaf_page t search_pointer) (\<lambda>search_leaf.
     seq (page_find search_leaf find_key) (\<lambda>pos.
     Inr [(search_pointer, pos)]))"
| "kernel_find_path_loop (Suc r) t find_key search_pointer =
     seq (get_stem_page t search_pointer) (\<lambda>search_stem.
     seq (page_find search_stem find_key) (\<lambda>pos.
     seq (page_elem search_stem pos) (\<lambda>e.
     seq (kernel_find_path_loop r t find_key (snd e)) (\<lambda>rest.
     Inr ((search_pointer, pos) # rest)))))"

definition kernel_find_path :: "('k::linorder, 'v) kernel \<Rightarrow> 'k \<Rightarrow> error + kernel_path" where
  "kernel_find_path t find_key =
     kernel_find_path_loop (nat (kernel_stem_levels t)) t find_key (root_pointer t)"

definition kernel_path_at :: "kernel_path \<Rightarrow> int \<Rightarrow> error + tree_position" where
  "kernel_path_at path i =
     (if 0 \<le> i \<and> i < int (length path) then Inr (path ! nat i) else Inl OutOfBounds)"

text \<open>
  \<open>while (page.small() && !other.empty()) { page.borrow_prev(other); }\<close> and the same with
  \<open>borrow_next\<close>; result (page, other).
\<close>

fun borrow_prev_while_small ::
  "nat \<Rightarrow> ('k::linorder, 'v, 'a) PageNode \<Rightarrow> ('k, 'v, 'a) PageNode \<Rightarrow>
     error + (('k, 'v, 'a) PageNode \<times> ('k, 'v, 'a) PageNode)" where
  "borrow_prev_while_small 0 p other =
     (if small p
      then seq (page_empty other) (\<lambda>e. if \<not> e then Inl OutOfFuel else Inr (p, other))
      else Inr (p, other))"
| "borrow_prev_while_small (Suc f) p other =
     (if small p
      then seq (page_empty other) (\<lambda>e.
           if \<not> e
           then seq (borrow_prev p other) (\<lambda>(p', other'). borrow_prev_while_small f p' other')
           else Inr (p, other))
      else Inr (p, other))"

fun borrow_next_while_small ::
  "nat \<Rightarrow> ('k::linorder, 'v, 'a) PageNode \<Rightarrow> ('k, 'v, 'a) PageNode \<Rightarrow>
     error + (('k, 'v, 'a) PageNode \<times> ('k, 'v, 'a) PageNode)" where
  "borrow_next_while_small 0 p other =
     (if small p
      then seq (page_empty other) (\<lambda>e. if \<not> e then Inl OutOfFuel else Inr (p, other))
      else Inr (p, other))"
| "borrow_next_while_small (Suc f) p other =
     (if small p
      then seq (page_empty other) (\<lambda>e.
           if \<not> e
           then seq (borrow_next p other) (\<lambda>(p', other'). borrow_next_while_small f p' other')
           else Inr (p, other))
      else Inr (p, other))"

text \<open>
  A step that \<open>erase\<close> and \<open>erase_helper\<close> share: the page \<open>erase_pg\<close> has lost an
  element and is not empty. If it was large and is now small it grows from its small
  siblings. A sibling is given with its pointer and the minimum key it had on entry; the
  result is (page, previous sibling, next sibling), stored by the caller.
\<close>

definition grow_from_siblings ::
  "bool \<Rightarrow> ('k::linorder, 'v, 'a) PageNode \<Rightarrow>
     (pointer \<times> 'k \<times> ('k, 'v, 'a) PageNode) option \<Rightarrow>
     (pointer \<times> 'k \<times> ('k, 'v, 'a) PageNode) option \<Rightarrow>
     error + (('k, 'v, 'a) PageNode \<times> ('k, 'v, 'a) PageNode option \<times> ('k, 'v, 'a) PageNode option)" where
  "grow_from_siblings was_large erase_pg prev next =
     (if was_large \<and> small erase_pg then
        seq (case prev of
               None \<Rightarrow> Inr (erase_pg, None)
             | Some (pp, pk, prev_pg) \<Rightarrow>
                 if small prev_pg
                 then seq (borrow_prev_while_small loop_fuel erase_pg prev_pg)
                        (\<lambda>(e', p'). Inr (e', Some p'))
                 else Inr (erase_pg, Some prev_pg)) (\<lambda>(erase_pg1, prev').
        seq (case next of
               None \<Rightarrow> Inr (erase_pg1, None)
             | Some (np, nk, next_pg) \<Rightarrow>
                 if small next_pg
                 then seq (borrow_next_while_small loop_fuel erase_pg1 next_pg)
                        (\<lambda>(e', n'). Inr (e', Some n'))
                 else Inr (erase_pg1, Some next_pg)) (\<lambda>(erase_pg2, next').
        Inr (erase_pg2, prev', next')))
      else Inr (erase_pg, map_option (\<lambda>(pp, pk, pg). pg) prev,
                map_option (\<lambda>(np, nk, pg). pg) next))"

text \<open>
  The pointer and entry of the sibling before and after entry \<open>parent_pos\<close>:
  \<open>parent_pos == parent_stem.min_position() ? nullptr : ...\<close>.
\<close>

definition prev_sibling ::
  "'k stem_page \<Rightarrow> page_position \<Rightarrow> error + pointer option" where
  "prev_sibling parent parent_pos =
     seq (min_position parent) (\<lambda>minpos.
     if parent_pos = minpos then Inr None
     else seq (prev_position parent parent_pos) (\<lambda>pos.
          seq (page_elem parent pos) (\<lambda>e. Inr (Some (snd e)))))"

definition next_sibling ::
  "'k stem_page \<Rightarrow> page_position \<Rightarrow> error + pointer option" where
  "next_sibling parent parent_pos =
     seq (max_position parent) (\<lambda>maxpos.
     if parent_pos = maxpos then Inr None
     else seq (next_position parent parent_pos) (\<lambda>pos.
          seq (page_elem parent pos) (\<lambda>e. Inr (Some (snd e)))))"

text \<open>
  A pointer obtained from an entry is tested against null before it is used:
  \<open>prev_ptr ? prev_ptr->min_key() : Key{}\<close>.
\<close>

definition with_leaf_sibling ::
  "('k, 'v) kernel \<Rightarrow> pointer option \<Rightarrow> error + (pointer \<times> 'k \<times> ('k, 'v) leaf_page) option" where
  "with_leaf_sibling t sib =
     (case sib of
        None \<Rightarrow> Inr None
      | Some nullptr \<Rightarrow> Inr None
      | Some ptr \<Rightarrow>
          seq (get_leaf_page t ptr) (\<lambda>pg.
          seq (page_min_key pg) (\<lambda>k. Inr (Some (ptr, k, pg)))))"

definition with_stem_sibling ::
  "('k, 'v) kernel \<Rightarrow> pointer option \<Rightarrow> error + (pointer \<times> 'k \<times> 'k stem_page) option" where
  "with_stem_sibling t sib =
     (case sib of
        None \<Rightarrow> Inr None
      | Some nullptr \<Rightarrow> Inr None
      | Some ptr \<Rightarrow>
          seq (get_stem_page t ptr) (\<lambda>pg.
          seq (page_min_key pg) (\<lambda>k. Inr (Some (ptr, k, pg)))))"

text \<open>
  The routing-key repairs that end both functions:
  \<open>parent_stem.set_key(parent_stem.find(old), page.min_key())\<close> when the minimum key of a
  page is no longer the key \<open>old\<close>.
\<close>

definition refresh_key ::
  "'k::linorder stem_page \<Rightarrow> 'k \<Rightarrow> ('k, 'v, 'a) PageNode \<Rightarrow> error + 'k stem_page" where
  "refresh_key parent old pg =
     seq (page_min_key pg) (\<lambda>k.
     if k \<noteq> old
     then seq (page_find parent old) (\<lambda>pos. page_set_key parent pos k)
     else Inr parent)"

text \<open>\<open>root_collapse\<close>; the first argument bounds the recursion by the height of the tree.\<close>

fun root_collapse :: "nat \<Rightarrow> ('k, 'v) kernel \<Rightarrow> error + ('k, 'v) kernel" where
  "root_collapse 0 t = Inl OutOfFuel"
| "root_collapse (Suc f) t =
     seq (get_stem_page t (root_pointer t)) (\<lambda>root.
     if stem_levels root = 0 then
       seq (get_leaf root (min_leaf_index root)) (\<lambda>(n, pr, nx).
       if count n = 1 then
         (let old_root = root_pointer t in
          seq (page_elem root (min_leaf_index root, 0)) (\<lambda>e.
          seq (delete_page (t\<lparr>root_pointer := snd e\<rparr>) old_root) (\<lambda>t1.
          let t2 = t1\<lparr>kernel_stem_levels := kernel_stem_levels t1 - 1\<rparr> in
          if kernel_stem_levels t2 > 0 then root_collapse f t2 else Inr t2)))
       else Inr t)
     else Inr t)"

text \<open>
  A sibling emptied by the borrowing is deleted and its entry erased from the parent. For
  leaf pages the list of leaf pages is patched around it. The functions take and return the
  tree and the parent page (the parent is stored by the caller).
\<close>

definition drop_empty_prev_leaf ::
  "('k::linorder, 'v) kernel \<Rightarrow> 'k stem_page \<Rightarrow> pointer \<Rightarrow>
     (pointer \<times> 'k \<times> ('k, 'v) leaf_page) option \<Rightarrow> error + (('k, 'v) kernel \<times> 'k stem_page)" where
  "drop_empty_prev_leaf t parent erase_pointer prev =
     (case prev of
        None \<Rightarrow> Inr (t, parent)
      | Some (prev_ptr, prev_key, old_pg) \<Rightarrow>
          seq (get_leaf_page t prev_ptr) (\<lambda>prev_pg.
          seq (page_empty prev_pg) (\<lambda>e.
          if e then
            (let pp = prev_pointer (aux prev_pg) in
             seq (case pp of
                    indeterminate \<Rightarrow> Inl Uninitialized
                  | nullptr \<Rightarrow> Inr t
                  | address a \<Rightarrow> set_next_pointer t pp erase_pointer) (\<lambda>t1.
             seq (set_prev_pointer t1 erase_pointer pp) (\<lambda>t2.
             let t3 = (if min_leaf_pointer t2 = prev_ptr
                       then t2\<lparr>min_leaf_pointer := erase_pointer\<rparr> else t2) in
             seq (delete_page t3 prev_ptr) (\<lambda>t4.
             seq (page_erase parent prev_key) (\<lambda>parent1.
             Inr (t4, parent1))))))
          else Inr (t, parent))))"

definition drop_empty_next_leaf ::
  "('k::linorder, 'v) kernel \<Rightarrow> 'k stem_page \<Rightarrow> pointer \<Rightarrow>
     (pointer \<times> 'k \<times> ('k, 'v) leaf_page) option \<Rightarrow> error + (('k, 'v) kernel \<times> 'k stem_page)" where
  "drop_empty_next_leaf t parent erase_pointer next =
     (case next of
        None \<Rightarrow> Inr (t, parent)
      | Some (next_ptr, next_key, old_pg) \<Rightarrow>
          seq (get_leaf_page t next_ptr) (\<lambda>next_pg.
          seq (page_empty next_pg) (\<lambda>e.
          if e then
            (let np = next_pointer (aux next_pg) in
             seq (case np of
                    indeterminate \<Rightarrow> Inl Uninitialized
                  | nullptr \<Rightarrow> Inr t
                  | address a \<Rightarrow> set_prev_pointer t np erase_pointer) (\<lambda>t1.
             seq (set_next_pointer t1 erase_pointer np) (\<lambda>t2.
             let t3 = (if max_leaf_pointer t2 = next_ptr
                       then t2\<lparr>max_leaf_pointer := erase_pointer\<rparr> else t2) in
             seq (delete_page t3 next_ptr) (\<lambda>t4.
             seq (page_erase parent next_key) (\<lambda>parent1.
             Inr (t4, parent1))))))
          else seq (refresh_key parent next_key next_pg) (\<lambda>parent1. Inr (t, parent1)))))"

definition drop_empty_prev_stem ::
  "('k::linorder, 'v) kernel \<Rightarrow> 'k stem_page \<Rightarrow>
     (pointer \<times> 'k \<times> 'k stem_page) option \<Rightarrow> error + (('k, 'v) kernel \<times> 'k stem_page)" where
  "drop_empty_prev_stem t parent prev =
     (case prev of
        None \<Rightarrow> Inr (t, parent)
      | Some (prev_ptr, prev_key, old_pg) \<Rightarrow>
          seq (get_stem_page t prev_ptr) (\<lambda>prev_pg.
          seq (page_empty prev_pg) (\<lambda>e.
          if e then
            seq (delete_page t prev_ptr) (\<lambda>t1.
            seq (page_erase parent prev_key) (\<lambda>parent1.
            Inr (t1, parent1)))
          else Inr (t, parent))))"

definition drop_empty_next_stem ::
  "('k::linorder, 'v) kernel \<Rightarrow> 'k stem_page \<Rightarrow>
     (pointer \<times> 'k \<times> 'k stem_page) option \<Rightarrow> error + (('k, 'v) kernel \<times> 'k stem_page)" where
  "drop_empty_next_stem t parent next =
     (case next of
        None \<Rightarrow> Inr (t, parent)
      | Some (next_ptr, next_key, old_pg) \<Rightarrow>
          seq (get_stem_page t next_ptr) (\<lambda>next_pg.
          seq (page_empty next_pg) (\<lambda>e.
          if e then
            seq (delete_page t next_ptr) (\<lambda>t1.
            seq (page_erase parent next_key) (\<lambda>parent1.
            Inr (t1, parent1)))
          else seq (refresh_key parent next_key next_pg) (\<lambda>parent1. Inr (t, parent1)))))"

text \<open>Storing a sibling that the borrowing may have changed.\<close>

definition store_leaf_sibling ::
  "('k, 'v) kernel \<Rightarrow> (pointer \<times> 'k \<times> ('k, 'v) leaf_page) option \<Rightarrow> ('k, 'v) leaf_page option \<Rightarrow>
     error + ('k, 'v) kernel" where
  "store_leaf_sibling t sib pg =
     (case (sib, pg) of
        (Some (ptr, k, old_pg), Some new_pg) \<Rightarrow> put_leaf_page t ptr new_pg
      | _ \<Rightarrow> Inr t)"

definition store_stem_sibling ::
  "('k, 'v) kernel \<Rightarrow> (pointer \<times> 'k \<times> 'k stem_page) option \<Rightarrow> 'k stem_page option \<Rightarrow>
     error + ('k, 'v) kernel" where
  "store_stem_sibling t sib pg =
     (case (sib, pg) of
        (Some (ptr, k, old_pg), Some new_pg) \<Rightarrow> put_stem_page t ptr new_pg
      | _ \<Rightarrow> Inr t)"

text \<open>
  \<open>erase_helper(path, depth, was_large)\<close> repairs the stem page at \<open>path[depth]\<close> after the
  level below has changed; at depth 0 it collapses the root. The first argument is \<open>depth\<close>.
\<close>

fun erase_helper ::
  "nat \<Rightarrow> ('k::linorder, 'v) kernel \<Rightarrow> kernel_path \<Rightarrow> bool \<Rightarrow> error + ('k, 'v) kernel" where
  "erase_helper 0 t path was_large = root_collapse (nat (kernel_stem_levels t)) t"
| "erase_helper (Suc d) t path was_large =
     seq (kernel_path_at path (int (Suc d))) (\<lambda>epos.
     let erase_pointer = fst epos in
     seq (get_stem_page t erase_pointer) (\<lambda>erase_stem.
     seq (kernel_path_at path (int d)) (\<lambda>ppos.
     let parent_pointer = fst ppos; parent_pos = snd ppos in
     seq (get_stem_page t parent_pointer) (\<lambda>parent_stem.
     let parent_was_large = large parent_stem in
     seq (page_key parent_stem parent_pos) (\<lambda>old_key.
     seq (page_empty erase_stem) (\<lambda>emp.
     seq (if emp then
            seq (delete_page t erase_pointer) (\<lambda>t1.
            seq (page_erase parent_stem old_key) (\<lambda>parent1.
            put_stem_page t1 parent_pointer parent1))
          else
            seq (prev_sibling parent_stem parent_pos) (\<lambda>ps.
            seq (with_stem_sibling t ps) (\<lambda>prev.
            seq (next_sibling parent_stem parent_pos) (\<lambda>ns.
            seq (with_stem_sibling t ns) (\<lambda>next.
            seq (grow_from_siblings was_large erase_stem prev next)
              (\<lambda>(erase_stem1, prev', next').
            seq (put_stem_page t erase_pointer erase_stem1) (\<lambda>t1.
            seq (store_stem_sibling t1 prev prev') (\<lambda>t2.
            seq (store_stem_sibling t2 next next') (\<lambda>t3.
            seq (drop_empty_prev_stem t3 parent_stem prev) (\<lambda>(t4, parent1).
            seq (drop_empty_next_stem t4 parent1 next) (\<lambda>(t5, parent2).
            seq (refresh_key parent2 old_key erase_stem1) (\<lambda>parent3.
            put_stem_page t5 parent_pointer parent3)))))))))))) (\<lambda>t'.
     erase_helper d t' path parent_was_large)))))))"

text \<open>
  \<open>erase\<close>: the leaf page at the end of the path erases at the position it finds for the
  key; the levels above are repaired by \<open>erase_helper\<close>.
\<close>

definition kernel_erase :: "('k::linorder, 'v) kernel \<Rightarrow> 'k \<Rightarrow> error + ('k, 'v) kernel" where
  "kernel_erase t erase_key =
     seq (kernel_find_path t erase_key) (\<lambda>path.
     seq (kernel_path_at path (kernel_stem_levels t)) (\<lambda>epos.
     let erase_pointer = fst epos in
     seq (get_leaf_page t erase_pointer) (\<lambda>erase_leaf.
     let was_large = large erase_leaf in
     seq (page_erase erase_leaf erase_key) (\<lambda>erase_leaf1.
     seq (put_leaf_page t erase_pointer erase_leaf1) (\<lambda>t0.
     if kernel_stem_levels t0 = 0 then Inr t0
     else
       seq (kernel_path_at path (kernel_stem_levels t0 - 1)) (\<lambda>ppos.
       let parent_pointer = fst ppos; parent_pos = snd ppos in
       seq (get_stem_page t0 parent_pointer) (\<lambda>parent_stem.
       let parent_was_large = large parent_stem in
       seq (page_key parent_stem parent_pos) (\<lambda>old_key.
       seq (page_empty erase_leaf1) (\<lambda>emp.
       seq (if emp then
              seq (delete_page t0 erase_pointer) (\<lambda>t1.
              seq (page_erase parent_stem old_key) (\<lambda>parent1.
              put_stem_page t1 parent_pointer parent1))
            else
              seq (prev_sibling parent_stem parent_pos) (\<lambda>ps.
              seq (with_leaf_sibling t0 ps) (\<lambda>prev.
              seq (next_sibling parent_stem parent_pos) (\<lambda>ns.
              seq (with_leaf_sibling t0 ns) (\<lambda>next.
              seq (grow_from_siblings was_large erase_leaf1 prev next)
                (\<lambda>(erase_leaf2, prev', next').
              seq (put_leaf_page t0 erase_pointer erase_leaf2) (\<lambda>t1.
              seq (store_leaf_sibling t1 prev prev') (\<lambda>t2.
              seq (store_leaf_sibling t2 next next') (\<lambda>t3.
              seq (drop_empty_prev_leaf t3 parent_stem erase_pointer prev) (\<lambda>(t4, parent1).
              seq (drop_empty_next_leaf t4 parent1 erase_pointer next) (\<lambda>(t5, parent2).
              seq (get_leaf_page t5 erase_pointer) (\<lambda>erase_leaf3.
              seq (refresh_key parent2 old_key erase_leaf3) (\<lambda>parent3.
              put_stem_page t5 parent_pointer parent3))))))))))))) (\<lambda>t'.
       erase_helper (nat (kernel_stem_levels t' - 1)) t' path parent_was_large))))))))))"

subsection \<open>Sequences of operations\<close>

datatype ('k, 'v) operation = Insert "'k \<times> 'v" | Erase 'k

fun apply_operation :: "('k::linorder, 'v) kernel \<Rightarrow> ('k, 'v) operation \<Rightarrow> error + ('k, 'v) kernel" where
  "apply_operation t (Insert e) = kernel_insert t e"
| "apply_operation t (Erase k) = kernel_erase t k"

fun run :: "('k::linorder, 'v) kernel \<Rightarrow> ('k, 'v) operation list \<Rightarrow> error + ('k, 'v) kernel" where
  "run t [] = Inr t"
| "run t (x # xs) = seq (apply_operation t x) (\<lambda>t'. run t' xs)"

fun insert_keys :: "('k::linorder, 'v) kernel \<Rightarrow> ('k \<times> 'v) list \<Rightarrow> error + ('k, 'v) kernel" where
  "insert_keys t [] = Inr t"
| "insert_keys t (e # es) = seq (kernel_insert t e) (\<lambda>t'. insert_keys t' es)"

section \<open>Verification\<close>

subsection \<open>Evaluation rules\<close>

lemma seq_Inl: "seq (Inl e) f = Inl e"
  by (simp add: seq_def)

lemma seq_Inr: "seq (Inr x) f = f x"
  by (simp add: seq_def)

lemma seq_weak_cong: "m = m' \<Longrightarrow> seq m f = seq m' f"
  by simp

lemma max_count_eq: "max_count = 15"
  by (simp add: max_count_def max_count_of_def line_node_size_def)

lemma min_count_eq: "min_count = 7"
  by (simp add: min_count_def max_count_eq)

lemma branchout_eq: "branchout = 15"
  by (simp add: branchout_def max_count_of_def line_node_size_def)

lemma pool_count_eq: "pool_count = 15"
  by (simp add: pool_count_def pool_count_of_def page_node_size_def line_node_size_def)

lemma pool_count_stem_page: "pool_count_of 1 = pool_count"
  by (simp add: pool_count_def pool_count_of_def page_node_size_def line_node_size_def)

lemma max_stem_levels_helper_14: "max_stem_levels_helper 14 15 = 0"
  by (subst max_stem_levels_helper.simps) simp

lemma max_stem_levels_helper_15: "max_stem_levels_helper 15 (Suc 0) = Suc 0"
  by (subst max_stem_levels_helper.simps) (simp add: branchout_eq max_stem_levels_helper_14)

lemma max_stem_levels_eq: "max_stem_levels = 1"
  by (simp add: max_stem_levels_def pool_count_eq max_stem_levels_helper_15)

lemma max_levels_eq: "max_levels = 2"
  by (simp add: max_levels_def max_stem_levels_eq)

subsection \<open>The search of a line node\<close>

lemma find_loop_spec:
  "sorted (map fst n) \<Longrightarrow> 0 < i \<Longrightarrow> i \<le> length n \<Longrightarrow> \<forall>j<i. fst (n ! j) \<le> k \<Longrightarrow>
   find_loop n k i < length n \<and> fst (n ! find_loop n k i) \<le> k \<and>
   (\<forall>j. find_loop n k i < j \<and> j < length n \<longrightarrow> k < fst (n ! j))"
proof (induction n k i rule: find_loop.induct)
  case (1 n k i)
  show ?case
  proof (cases "i < length n")
    case False
    have eq: "find_loop n k i = length n - 1"
      using False by (subst find_loop.simps) (simp add: end_index_def count_def)
    from False 1(3,4,5) show ?thesis
      unfolding eq by auto
  next
    case inb: True
    show ?thesis
    proof (cases "k < fst (n ! i)")
      case True
      have later: "\<And>j. i \<le> j \<Longrightarrow> j < length n \<Longrightarrow> k < fst (n ! j)"
      proof -
        fix j assume "i \<le> j" "j < length n"
        with 1(2) have "fst (n ! i) \<le> fst (n ! j)"
          by (simp add: sorted_iff_nth_mono)
        with True show "k < fst (n ! j)" by simp
      qed
      have eq: "find_loop n k i = i - 1"
        using inb True by (subst find_loop.simps) (simp add: end_index_def count_def)
      show ?thesis
        unfolding eq using 1(3,4,5) inb later by auto
    next
      case False
      have eq: "find_loop n k i = find_loop n k (Suc i)"
        using inb False by (subst find_loop.simps) (simp add: end_index_def count_def)
      have "\<forall>j<Suc i. fst (n ! j) \<le> k"
        using 1(5) False by (auto simp: less_Suc_eq)
      with 1(1)[of] inb False 1(2) show ?thesis
        unfolding eq by (simp add: end_index_def count_def)
    qed
  qed
qed

text \<open>
  Claim C9. For a non-empty line node whose elements are sorted by key, \<open>find\<close> returns the
  index of the greatest key less than or equal to the key sought: the key at that index is
  at most the key sought and every key behind it is greater. When all keys are greater than
  the key sought it returns index 0.
\<close>

theorem line_find_greatest_le:
  assumes "n \<noteq> []" and "sorted (map fst n)"
  shows "\<exists>r. line_find n k = Inr r \<and> r < count n \<and>
           (if \<forall>e \<in> set n. k < fst e then r = 0
            else fst (n ! r) \<le> k \<and> (\<forall>j. r < j \<and> j < count n \<longrightarrow> k < fst (n ! j)))"
proof (cases "k < fst (n ! 0)")
  case True
  have "\<forall>e \<in> set n. k < fst e"
  proof
    fix e assume "e \<in> set n"
    then obtain j where "j < length n" "e = n ! j" by (auto simp: in_set_conv_nth)
    with assms(2) have "fst (n ! 0) \<le> fst e" by (simp add: sorted_iff_nth_mono)
    with True show "k < fst e" by simp
  qed
  with True assms(1) show ?thesis
    by (simp add: line_find_def min_key_def key_def elem_def min_index_def count_def seq_Inr)
next
  case False
  have pre: "\<forall>j<Suc 0. fst (n ! j) \<le> k" using False by simp
  have len: "Suc 0 \<le> length n" using assms(1) by (cases n) simp_all
  from find_loop_spec[OF assms(2) _ len pre]
  have spec: "find_loop n k (Suc 0) < length n \<and> fst (n ! find_loop n k (Suc 0)) \<le> k \<and>
     (\<forall>j. find_loop n k (Suc 0) < j \<and> j < length n \<longrightarrow> k < fst (n ! j))" by simp
  have notall: "\<not> (\<forall>e \<in> set n. k < fst e)"
    using False assms(1) by (auto intro!: bexI[of _ "n ! 0"])
  show ?thesis
    using False assms(1) spec notall
    by (auto simp: line_find_def min_key_def key_def elem_def min_index_def count_def seq_Inr)
qed

theorem line_find_greatest_le_witness:
  "[(1::nat, ''a''), (3, ''b''), (5, ''c'')] \<noteq> [] \<and>
   sorted (map fst [(1::nat, ''a''), (3, ''b''), (5, ''c'')]) \<and>
   (\<exists>r. line_find [(1::nat, ''a''), (3, ''b''), (5, ''c'')] 4 = Inr r \<and>
        fst ([(1::nat, ''a''), (3, ''b''), (5, ''c'')] ! r) \<le> 4)"
proof -
  have h1: "[(1::nat, ''a''), (3, ''b''), (5, ''c'')] \<noteq> []" by simp
  have h2: "sorted (map fst [(1::nat, ''a''), (3, ''b''), (5, ''c'')])" by simp
  have h3: "\<not> (\<forall>e \<in> set [(1::nat, ''a''), (3, ''b''), (5, ''c'')]. 4 < fst e)" by simp
  from line_find_greatest_le[OF h1 h2, of 4] h3 h1 h2 show ?thesis
    by (metis (no_types, lifting))
qed

subsection \<open>Load states\<close>

text \<open>
  Claim C7, amended. With the constants of the instance, \<open>max_levels\<close> is 2: a page is small
  iff more than 3 pool entries are free, oversized iff at most 1 is free, and large iff at
  most 3 are free, which is iff it is not small. Every oversized page is large as well;
  \<open>large\<close> does not exclude \<open>oversized\<close>.
\<close>

theorem load_states:
  "max_levels = 2 \<and>
   small p = (3 < free_count p) \<and>
   oversized p = (free_count p \<le> 1) \<and>
   large p = (free_count p \<le> 3) \<and>
   large p = (\<not> small p) \<and>
   (oversized p \<longrightarrow> large p)"
  by (auto simp: small_def large_def oversized_def max_levels_eq)

subsection \<open>The empty map\<close>

text \<open>
  Claim C10. In a newly constructed map \<open>begin()\<close> is the position (root page, (line 0,
  element 0)) and \<open>end()\<close> is (root page, (line 0, element 1)): \<open>max_index()\<close> is 0 on the empty
  line and \<open>end_position\<close> adds 1. The two iterators are different.
\<close>

theorem begin_differs_from_end_when_empty:
  "\<exists>t b e. (new_kernel :: error + ('k, 'v) kernel) = Inr t \<and>
       kernel_begin t = Inr b \<and> kernel_end t = Inr e \<and>
       b = (address 0, (0, 0)) \<and> e = (address 0, (0, 1)) \<and> b \<noteq> e"
  by (simp add: new_kernel_def new_PageNode_def allocate_def set_entry_def pool_count_eq
      fresh_leaf_aux_def kernel_begin_def kernel_end_def get_leaf_page_def deref_def
      min_position_def end_position_def get_leaf_def get_entry_def min_index_def max_index_def
      count_def page_index_nil_def seq_Inr Let_def)

end
